theory Spec2Isabelle
  imports Main "HOL-Library.Finite_Map" "HOL-Library.Word"
begin

section \<open>Data model of \<^verbatim>\<open>vyper/parser/parser_utils.py\<close>\<close>

text \<open>
  The value types of \<^verbatim>\<open>vyper.types\<close> as a closed datatype. A unit is a Python dict from
  unit names to powers (compared by content, so a finite map), or the contract name that
  \<^verbatim>\<open>ContractType\<close> stores in the unit slot. \<^verbatim>\<open>ContractType\<close> is a subclass of
  \<^verbatim>\<open>BaseType\<close>; \<^verbatim>\<open>ByteArrayType\<close> and \<^verbatim>\<open>StringType\<close> are the two
  \<^verbatim>\<open>ByteArrayLike\<close> classes. Struct members are an ordered dict (an association list in
  insertion order), tuple members a list.
\<close>

datatype vunit = UnitDict "(string, int) fmap" | UnitName string

datatype vtype =
    BaseType string "vunit option" bool bool
  | ContractType string
  | ByteArrayType int
  | StringType int
  | ListType vtype int
  | MappingType vtype vtype
  | StructType "(string \<times> vtype) list" string
  | TupleType "vtype list"

text \<open>
  The value slot of an IR node: \<^verbatim>\<open>None\<close>, a Python int, or a string (an operation name
  or a variable).
\<close>

datatype atom = ANone | AInt int | AStr string

text \<open>
  An IR node: value, children, type and location. The metadata that carries no meaning
  for the emitted code (annotation text, gas estimate, source position, valency) is left
  out, and so are the arity checks that the node constructor of \<^verbatim>\<open>lll_node.py\<close> runs.
  \<^verbatim>\<open>LLLnode.from_list([op, a, b], typ=t, location=l)\<close> is \<open>LLLnode (AStr op) [a, b] t l\<close>.
\<close>

datatype LLLnode =
  LLLnode (value_of: atom) (args_of: "LLLnode list") (typ_of: "vtype option")
    (location_of: "string option")

abbreviation lit :: "int \<Rightarrow> LLLnode" where
  "lit n \<equiv> LLLnode (AInt n) [] None None"

abbreviation sym :: "string \<Rightarrow> LLLnode" where
  "sym s \<equiv> LLLnode (AStr s) [] None None"

abbreviation op :: "string \<Rightarrow> LLLnode list \<Rightarrow> LLLnode" where
  "op s xs \<equiv> LLLnode (AStr s) xs None None"

text \<open>Every exception class the modelled functions can raise, Python's own included.\<close>

datatype error =
    TypeMismatchException
  | CompilerPanic
  | ArrayIndexException
  | InvalidLiteralException
  | ConstancyViolationException
  | PyException
  | PyTypeError
  | AttributeError
  | IndexError
  | KeyError
  | UnboundLocalError

definition bindE :: "error + 'a \<Rightarrow> ('a \<Rightarrow> error + 'b) \<Rightarrow> error + 'b" where
  "bindE m f = (case m of Inl e \<Rightarrow> Inl e | Inr x \<Rightarrow> f x)"

text \<open>
  What the module imports from \<^verbatim>\<open>vyper.utils\<close> and \<^verbatim>\<open>vyper.types\<close> and this file does
  not define is a parameter of the model.
\<close>

record externals =
  FREE_LOOP_INDEX :: int
  DECIMAL_DIVISOR :: int
  get_size_of_type :: "vtype \<Rightarrow> int"
  are_units_compatible :: "vtype \<Rightarrow> vtype \<Rightarrow> bool"

text \<open>
  A sample instantiation for the worked examples below: every base type is one word, a
  byte array its payload words plus two, a list its elements, a struct or tuple the sum
  of its members; units are compatible when the source has none or both sides agree.
\<close>

fun sample_size :: "vtype \<Rightarrow> int" where
  "sample_size (BaseType t u p l) = 1"
| "sample_size (ContractType n) = 1"
| "sample_size (ByteArrayType n) = (n + 31) div 32 + 2"
| "sample_size (StringType n) = (n + 31) div 32 + 2"
| "sample_size (ListType t n) = sample_size t * n"
| "sample_size (MappingType k v) = 0"
| "sample_size (StructType ms n) = sum_list (map (\<lambda>m. sample_size (snd m)) ms)"
| "sample_size (TupleType ms) = sum_list (map sample_size ms)"

fun sample_units :: "vtype \<Rightarrow> vtype \<Rightarrow> bool" where
  "sample_units (BaseType t u p l) (BaseType t' u' p' l') = (u = None \<or> (u = u' \<and> p = p'))"
| "sample_units a b = False"

definition sample_externals :: externals where
  "sample_externals =
     \<lparr>FREE_LOOP_INDEX = 288, DECIMAL_DIVISOR = 10000000000,
      get_size_of_type = sample_size, are_units_compatible = sample_units\<rparr>"

subsection \<open>Attribute access on types\<close>

fun is_ByteArrayLike :: "vtype option \<Rightarrow> bool" where
  "is_ByteArrayLike (Some (ByteArrayType n)) = True"
| "is_ByteArrayLike (Some (StringType n)) = True"
| "is_ByteArrayLike t = False"

text \<open>\<^verbatim>\<open>t.maxlen\<close>: only the byte-array classes have the attribute.\<close>

fun maxlen :: "vtype option \<Rightarrow> error + int" where
  "maxlen (Some (ByteArrayType n)) = Inr n"
| "maxlen (Some (StringType n)) = Inr n"
| "maxlen t = Inl AttributeError"

fun is_BaseType :: "vtype option \<Rightarrow> bool" where
  "is_BaseType (Some (BaseType t u p l)) = True"
| "is_BaseType (Some (ContractType n)) = True"
| "is_BaseType t = False"

fun is_ContractType :: "vtype option \<Rightarrow> bool" where
  "is_ContractType (Some (ContractType n)) = True"
| "is_ContractType t = False"

text \<open>
  The attributes \<^verbatim>\<open>typ\<close>, \<^verbatim>\<open>unit\<close>, \<^verbatim>\<open>positional\<close> and \<^verbatim>\<open>is_literal\<close> of a base
  type. A contract type is the base type \<^verbatim>\<open>address\<close> with the contract's name in the
  unit slot. The functions are only applied under a guard that the type is a base type.
\<close>

fun typ_name :: "vtype option \<Rightarrow> string" where
  "typ_name (Some (BaseType t u p l)) = t"
| "typ_name (Some (ContractType n)) = ''address''"
| "typ_name t = []"

fun unit_of :: "vtype option \<Rightarrow> vunit option" where
  "unit_of (Some (BaseType t u p l)) = u"
| "unit_of (Some (ContractType n)) = Some (UnitName n)"
| "unit_of t = None"

fun positional_of :: "vtype option \<Rightarrow> bool" where
  "positional_of (Some (BaseType t u p l)) = p"
| "positional_of t = False"

text \<open>
  \<^verbatim>\<open>getattr(t, 'is_literal', False)\<close>; the data model gives the flag to base types only.
\<close>

fun literal_flag :: "vtype option \<Rightarrow> bool" where
  "literal_flag (Some (BaseType t u p l)) = l"
| "literal_flag t = False"

text \<open>
  Modelled from the spec: \<^verbatim>\<open>is_base_type(typ, btypes)\<close> of \<^verbatim>\<open>vyper.types\<close>, not in
  this file: the type is a base type and its name is one of \<open>btypes\<close>.
\<close>

definition is_base_type :: "vtype option \<Rightarrow> string list \<Rightarrow> bool" where
  "is_base_type t btypes = (is_BaseType t \<and> typ_name t \<in> set btypes)"

definition units_compatible :: "externals \<Rightarrow> vtype option \<Rightarrow> vtype option \<Rightarrow> bool" where
  "units_compatible ext frm to =
     (case (frm, to) of (Some f, Some t) \<Rightarrow> are_units_compatible ext f t | _ \<Rightarrow> False)"

text \<open>
  Modelled from the spec: \<^verbatim>\<open>SizeLimits.in_bounds(type_str, value)\<close> of \<^verbatim>\<open>vyper.utils\<close>,
  not in this file: the representable range of the two integer types, the only type
  names this file passes a literal for. Comparing a value that is not an int with an int
  is a Python TypeError; any other type name is an error.
\<close>

definition in_bounds :: "string \<Rightarrow> atom \<Rightarrow> error + bool" where
  "in_bounds type_str v =
     (if type_str = ''uint256'' then
        (case v of AInt n \<Rightarrow> Inr (0 \<le> n \<and> n \<le> 2 ^ 256 - 1) | _ \<Rightarrow> Inl PyTypeError)
      else if type_str = ''int128'' then
        (case v of AInt n \<Rightarrow> Inr (- (2 ^ 127) \<le> n \<and> n \<le> 2 ^ 127 - 1) | _ \<Rightarrow> Inl PyTypeError)
      else Inl PyException)"

section \<open>Unwrapping and scalar conversion\<close>

definition unwrap_location :: "LLLnode \<Rightarrow> LLLnode" where
  "unwrap_location orig =
     (if location_of orig = Some ''memory'' then LLLnode (AStr ''mload'') [orig] (typ_of orig) None
      else if location_of orig = Some ''storage'' then
        LLLnode (AStr ''sload'') [orig] (typ_of orig) None
      else if location_of orig = Some ''calldata'' then
        LLLnode (AStr ''calldataload'') [orig] (typ_of orig) None
      else orig)"

text \<open>
  \<^verbatim>\<open>to == BaseType('address')\<close>: equality of types compares class, name, unit and
  positional flag.
\<close>

fun is_plain_address :: "vtype option \<Rightarrow> bool" where
  "is_plain_address (Some (BaseType t u p l)) = (t = ''address'' \<and> u = None \<and> \<not> p)"
| "is_plain_address t = False"

definition base_type_conversion ::
  "externals \<Rightarrow> LLLnode \<Rightarrow> vtype option \<Rightarrow> vtype option \<Rightarrow> bool \<Rightarrow> error + LLLnode" where
  "base_type_conversion ext orig0 frm to in_function_call =
    (let orig = unwrap_location orig0;
         is_valid_int128_to_decimal =
           ((is_base_type frm [''int128''] \<and> is_base_type to [''decimal''])
            \<and> units_compatible ext frm to)
     in bindE
          (if literal_flag frm \<and> typ_name frm \<in> set [''int128'', ''uint256''] then
             bindE (in_bounds (typ_name frm) (value_of orig)) (\<lambda>ok.
               if \<not> ok then Inl InvalidLiteralException
               else if in_function_call then
                 (if \<not> is_BaseType to then Inl AttributeError
                  else if \<not> (unit_of frm = unit_of to \<and> positional_of frm = positional_of to)
                  then Inl InvalidLiteralException
                  else Inr ())
               else Inr ())
           else Inr ())
          (\<lambda>_.
             if \<not> (is_BaseType frm \<and> is_BaseType to) then Inl TypeMismatchException
             else if is_base_type frm [typ_name to] \<and> units_compatible ext frm to then
               Inr (LLLnode (value_of orig) (args_of orig) to None)
             else if is_ContractType frm \<and> is_plain_address to then
               Inr (LLLnode (value_of orig) (args_of orig) to None)
             else if is_valid_int128_to_decimal then
               Inr (LLLnode (AStr ''mul'') [orig, lit (DECIMAL_DIVISOR ext)]
                      (Some (BaseType ''decimal'' (unit_of to) (positional_of to) False)) None)
             else if typ_name frm = ''int128'' \<and> typ_name to = ''uint256'' \<and> literal_flag frm
             then Inr (LLLnode (value_of orig) (args_of orig) to None)
             else Inl TypeMismatchException))"

section \<open>The address resolver\<close>

text \<open>
  The key of \<^verbatim>\<open>add_variable_offset\<close> is a Python value of any class: a member name, a
  static index, or a node.
\<close>

datatype key = KStr string | KInt int | KNode LLLnode

text \<open>\<^verbatim>\<open>xs.index(x)\<close> for an element that is in the list, and \<^verbatim>\<open>xs[i]\<close>.\<close>

fun index_of :: "'a \<Rightarrow> 'a list \<Rightarrow> nat" where
  "index_of x [] = 0"
| "index_of x (y # ys) = (if x = y then 0 else Suc (index_of x ys))"

definition py_index :: "'a list \<Rightarrow> int \<Rightarrow> error + 'a" where
  "py_index xs i =
     (if 0 \<le> i \<and> i < int (length xs) then Inr (xs ! nat i)
      else if i < 0 \<and> - int (length xs) \<le> i then Inr (xs ! nat (int (length xs) + i))
      else Inl IndexError)"

text \<open>
  \<^verbatim>\<open>typ.members[attrs[i]]\<close>: for a struct \<open>attrs\<close> is the list of member names, for a
  tuple the list of positions.
\<close>

fun member_at :: "vtype \<Rightarrow> nat \<Rightarrow> error + vtype" where
  "member_at (StructType ms n) i =
     (if i < length ms then
        (case map_of ms (fst (ms ! i)) of None \<Rightarrow> Inl KeyError | Some t \<Rightarrow> Inr t)
      else Inl IndexError)"
| "member_at (TupleType ms) i = (if i < length ms then Inr (ms ! i) else Inl IndexError)"
| "member_at t i = Inl AttributeError"

text \<open>
  The loop \<^verbatim>\<open>for i in range(index): offset += 32 * get_size_of_type(typ.members[attrs[i]])\<close>.
\<close>

fun offset_upto :: "externals \<Rightarrow> vtype \<Rightarrow> nat \<Rightarrow> error + int" where
  "offset_upto ext t 0 = Inr 0"
| "offset_upto ext t (Suc n) =
     bindE (offset_upto ext t n) (\<lambda>offset.
     bindE (member_at t n) (\<lambda>m. Inr (offset + 32 * get_size_of_type ext m)))"

text \<open>
  The tail that struct and tuple parents share. \<open>subtype\<close> is None when the local variable
  of that name was never assigned (the tuple branch does not assign it); \<open>member\<close> is
  \<^verbatim>\<open>typ.members[key]\<close>, needed in memory and calldata only.
\<close>

definition member_offset ::
  "externals \<Rightarrow> LLLnode \<Rightarrow> vtype \<Rightarrow> vtype option \<Rightarrow> int \<Rightarrow> error + vtype
     \<Rightarrow> error + LLLnode option" where
  "member_offset ext parent t subtype index member =
    (if location_of parent = Some ''storage'' then
       (case subtype of
          None \<Rightarrow> Inl UnboundLocalError
        | Some st \<Rightarrow>
            Inr (Some (LLLnode (AStr ''add'') [op ''sha3_32'' [parent], lit index]
                         (Some st) (Some ''storage''))))
     else if location_of parent = Some ''storage_prehashed'' then
       (case subtype of
          None \<Rightarrow> Inl UnboundLocalError
        | Some st \<Rightarrow>
            Inr (Some (LLLnode (AStr ''add'') [parent, lit index] (Some st) (Some ''storage''))))
     else if location_of parent = Some ''calldata'' \<or> location_of parent = Some ''memory'' then
       bindE (offset_upto ext t (nat index)) (\<lambda>offset.
       bindE member (\<lambda>m.
         Inr (Some (LLLnode (AStr ''add'') [lit offset, parent] (Some m) (location_of parent)))))
     else Inl TypeMismatchException)"

text \<open>The mapping branch: the hashed key, then the slot.\<close>

definition mapping_offset ::
  "externals \<Rightarrow> LLLnode \<Rightarrow> vtype \<Rightarrow> vtype \<Rightarrow> LLLnode \<Rightarrow> error + LLLnode option" where
  "mapping_offset ext parent keytype valuetype k =
    bindE
      (if is_ByteArrayLike (typ_of k) then
         (if \<not> is_ByteArrayLike (Some keytype) then Inl TypeMismatchException
          else
            bindE (maxlen (Some keytype)) (\<lambda>kmax.
            bindE (maxlen (typ_of k)) (\<lambda>amax.
              if kmax < amax then Inl TypeMismatchException
              else
                (case args_of k of
                   [] \<Rightarrow> Inl IndexError
                 | a # as \<Rightarrow>
                     if length (args_of a) \<ge> 3 then
                       Inr (op ''seq'' [k, op ''sha3'' [op ''add'' [last (args_of a), lit 32],
                                                        op ''mload'' [last (args_of a)]]])
                     else
                       Inr (op ''sha3'' [op ''add'' [LLLnode (value_of a) [] None None, lit 32],
                                         op ''mload'' [LLLnode (value_of a) [] None None]])))))
       else base_type_conversion ext k (typ_of k) (Some keytype) False)
      (\<lambda>sub.
         if location_of parent = Some ''storage'' then
           Inr (Some (LLLnode (AStr ''sha3_64'') [parent, sub] (Some valuetype) (Some ''storage'')))
         else if location_of parent = Some ''memory'' \<or> location_of parent = Some ''calldata''
         then Inl TypeMismatchException
         else Inr None)"

text \<open>The list branch: the index expression under the three policies, then the address.\<close>

definition list_index ::
  "LLLnode \<Rightarrow> int \<Rightarrow> bool \<Rightarrow> error + LLLnode" where
  "list_index k count array_bounds_check =
    (let k' = unwrap_location k in
     if \<not> is_base_type (typ_of k) [''int128'', ''uint256''] then Inl TypeMismatchException
     else if \<not> array_bounds_check then Inr k'
     else if literal_flag (typ_of k) then
       (case value_of k of
          AInt v \<Rightarrow> if v < 0 \<or> v \<ge> count then Inl ArrayIndexException else Inr k'
        | _ \<Rightarrow> Inl PyTypeError)
     else Inr (op ''uclamplt'' [k', lit count]))"

definition list_offset ::
  "externals \<Rightarrow> LLLnode \<Rightarrow> vtype \<Rightarrow> LLLnode \<Rightarrow> error + LLLnode option" where
  "list_offset ext parent subtype sub =
    (if location_of parent = Some ''storage'' then
       Inr (Some (LLLnode (AStr ''add'') [op ''sha3_32'' [parent], sub]
                    (Some subtype) (Some ''storage'')))
     else if location_of parent = Some ''storage_prehashed'' then
       Inr (Some (LLLnode (AStr ''add'') [parent, sub] (Some subtype) (Some ''storage'')))
     else if location_of parent = Some ''calldata'' \<or> location_of parent = Some ''memory'' then
       Inr (Some (LLLnode (AStr ''add'')
                    [op ''mul'' [lit (32 * get_size_of_type ext subtype), sub], parent]
                    (Some subtype) (location_of parent)))
     else Inl TypeMismatchException)"

text \<open>
  \<^verbatim>\<open>add_variable_offset(parent, key, pos, array_bounds_check)\<close>. The result is
  \<open>Inr None\<close> where the Python function falls off its end (a mapping parent in a location
  other than storage, memory and calldata).
\<close>

definition add_variable_offset ::
  "externals \<Rightarrow> LLLnode \<Rightarrow> key \<Rightarrow> bool \<Rightarrow> error + LLLnode option" where
  "add_variable_offset ext parent k array_bounds_check =
    (case typ_of parent of
       Some (StructType ms name) \<Rightarrow>
         (case k of
            KStr s \<Rightarrow>
              (case map_of ms s of
                 None \<Rightarrow> Inl TypeMismatchException
               | Some subtype \<Rightarrow>
                   member_offset ext parent (StructType ms name) (Some subtype)
                     (int (index_of s (map fst ms))) (Inr subtype))
          | _ \<Rightarrow> Inl TypeMismatchException)
     | Some (TupleType ms) \<Rightarrow>
         (case k of
            KInt i \<Rightarrow> member_offset ext parent (TupleType ms) None i (py_index ms i)
          | _ \<Rightarrow> Inl TypeMismatchException)
     | Some (MappingType keytype valuetype) \<Rightarrow>
         (case k of
            KNode n \<Rightarrow> mapping_offset ext parent keytype valuetype n
          | _ \<Rightarrow> Inl AttributeError)
     | Some (ListType subtype count) \<Rightarrow>
         (case k of
            KNode n \<Rightarrow>
              bindE (list_index n count array_bounds_check) (list_offset ext parent subtype)
          | _ \<Rightarrow> Inl AttributeError)
     | _ \<Rightarrow> Inl TypeMismatchException)"

section \<open>The byte-sequence copier\<close>

definition mzero :: "LLLnode \<Rightarrow> LLLnode \<Rightarrow> LLLnode" where
  "mzero dst nbytes = op ''calldatacopy'' [dst, sym ''calldatasize'', nbytes]"

text \<open>\<^verbatim>\<open>"Unsupported location:" + loc\<close> is itself a TypeError when \<open>loc\<close> is None.\<close>

definition unsupported_location :: "string option \<Rightarrow> error" where
  "unsupported_location loc = (case loc of None \<Rightarrow> PyTypeError | Some s \<Rightarrow> CompilerPanic)"

definition make_byte_slice_copier ::
  "externals \<Rightarrow> LLLnode \<Rightarrow> LLLnode \<Rightarrow> LLLnode \<Rightarrow> int \<Rightarrow> error + LLLnode" where
  "make_byte_slice_copier ext destination source length_node max_length =
    (let idx = op ''mload'' [lit (FREE_LOOP_INDEX ext)] in
     if location_of source = Some ''memory'' \<and> location_of destination = Some ''memory'' then
       Inr (op ''with'' [sym ''_l'', lit max_length,
              op ''pop'' [op ''call'' [lit (18 + max_length div 10), lit 4, lit 0, source,
                                        sym ''_l'', destination, sym ''_l'']]])
     else if value_of source = ANone \<and> location_of destination = Some ''memory'' then
       Inr (mzero destination (lit max_length))
     else
       bindE
         (if value_of source = ANone then Inr (lit 0)
          else if location_of source = Some ''memory'' then
            Inr (op ''mload'' [op ''add'' [sym ''_pos'', op ''mul'' [lit 32, idx]]])
          else if location_of source = Some ''storage'' then
            Inr (op ''sload'' [op ''add'' [sym ''_pos'', idx]])
          else Inl CompilerPanic)
         (\<lambda>loader.
       bindE
         (if location_of destination = Some ''memory'' then
            Inr (op ''mstore'' [op ''add'' [sym ''_opos'', op ''mul'' [lit 32, idx]], loader])
          else if location_of destination = Some ''storage'' then
            Inr (op ''sstore'' [op ''add'' [sym ''_opos'', idx], loader])
          else Inl (unsupported_location (location_of destination)))
         (\<lambda>setter.
       (let checker = op ''if'' [op ''gt'' [op ''mul'' [lit 32, idx], sym ''_actual_len''],
                                sym ''break''];
            ipos = (if value_of source = ANone then lit 0 else source)
        in Inr (op ''with'' [sym ''_pos'', ipos,
                  op ''with'' [sym ''_opos'', destination,
                    op ''with'' [sym ''_actual_len'', length_node,
                      op ''repeat'' [lit (FREE_LOOP_INDEX ext), lit 0,
                                     lit ((max_length + 31) div 32),
                                     op ''seq'' [checker, setter]]]]])))))"

definition make_byte_array_copier ::
  "externals \<Rightarrow> LLLnode \<Rightarrow> LLLnode \<Rightarrow> error + LLLnode" where
  "make_byte_array_copier ext destination source =
    (if \<not> is_ByteArrayLike (typ_of source) then Inl TypeMismatchException
     else
       bindE (maxlen (typ_of source)) (\<lambda>smax.
       bindE (maxlen (typ_of destination)) (\<lambda>dmax.
       if smax > dmax then Inl TypeMismatchException
       else if value_of source = ANone \<and> smax \<noteq> dmax then Inl TypeMismatchException
       else if location_of source = Some ''memory'' \<and> location_of destination = Some ''memory''
       then
         Inr (op ''with'' [sym ''_source'', source,
                op ''with'' [sym ''_sz'', op ''add'' [lit 32, op ''mload'' [sym ''_source'']],
                  op ''assert'' [op ''call'' [op ''add'' [lit 18, op ''div'' [sym ''_sz'', lit 10]],
                                             lit 4, lit 0, sym ''_source'', sym ''_sz'',
                                             destination, sym ''_sz'']]]])
       else
         bindE
           (if value_of source = ANone then Inr (source, lit 1)
            else if location_of source = Some ''memory'' then
              Inr (LLLnode (AStr ''_pos'') [] (typ_of source) (location_of source),
                   op ''add'' [op ''mload'' [sym ''_pos''], lit 32])
            else if location_of source = Some ''storage'' then
              Inr (LLLnode (AStr ''sha3_32'')
                     [LLLnode (AStr ''_pos'') [] (typ_of source) (location_of source)]
                     (typ_of source) (location_of source),
                   op ''add'' [op ''sload'' [sym ''_pos''], lit 32])
            else Inl (unsupported_location (location_of source)))
           (\<lambda>(pos_node, length_node).
         (let destination' =
                (if location_of destination = Some ''storage''
                 then LLLnode (AStr ''sha3_32'') [destination] (typ_of destination)
                        (location_of destination)
                 else destination);
              max_length = (if value_of source = ANone then 32 else smax + 32)
          in bindE (make_byte_slice_copier ext destination' pos_node length_node max_length)
               (\<lambda>body. Inr (op ''with'' [sym ''_pos'',
                                          (if value_of source = ANone then lit 0 else source),
                                          body])))))))"

section \<open>The function epilogue\<close>

text \<open>
  \<^verbatim>\<open>make_return_stmt\<close> returns a plain Python list, not a node: nested lists of ints,
  strings and nodes.
\<close>

datatype raw = RInt int | RStr string | RList "raw list" | RNode LLLnode

text \<open>
  The statement and the compilation context, with the fields the epilogue reads.
  \<open>nonreentrant_lock\<close> stands for the pair that
  \<^verbatim>\<open>get_nonreentrant_lock(context.sig, context.global_ctx)\<close> returns (guard acquisition,
  guard release); that function lives in another module. \<open>next_placeholder\<close> is the state
  of the scratch allocator.
\<close>

record stmt =
  lineno :: int
  col_offset :: int

record Context =
  is_private :: bool
  method_id :: int
  callback_ptr :: int
  nonreentrant_lock :: "raw list \<times> raw list"
  next_placeholder :: int

text \<open>
  Modelled from the spec: \<^verbatim>\<open>context.new_placeholder\<close>, which is not in this file, is the
  bump allocator of section 3 of the specification: it reserves \<open>32 * size_of(type)\<close>
  bytes and returns their fixed offset.
\<close>

definition new_placeholder :: "externals \<Rightarrow> Context \<Rightarrow> vtype \<Rightarrow> int \<times> Context" where
  "new_placeholder ext ctx t =
     (next_placeholder ctx,
      ctx\<lparr>next_placeholder := next_placeholder ctx + 32 * get_size_of_type ext t\<rparr>)"

text \<open>Python's \<^verbatim>\<open>str\<close> on an int, and \<^verbatim>\<open>'_'.join\<close>.\<close>

definition digit_char :: "nat \<Rightarrow> char" where
  "digit_char d = char_of (48 + d)"

function str_nat :: "nat \<Rightarrow> string" where
  "str_nat n = (if n < 10 then [digit_char n] else str_nat (n div 10) @ [digit_char (n mod 10)])"
  by pat_completeness auto
termination
  by (relation "measure id") auto

definition str_int :: "int \<Rightarrow> string" where
  "str_int i = (if i < 0 then CHR ''-'' # str_nat (nat (- i)) else str_nat (nat i))"

fun join_underscore :: "string list \<Rightarrow> string" where
  "join_underscore [] = []"
| "join_underscore [x] = x"
| "join_underscore (x # y # ys) = x @ ''_'' @ join_underscore (y # ys)"

text \<open>\<^verbatim>\<open>range(start, stop, 32)\<close>: \<open>start\<close>, \<open>start + 32\<close>, ... while below \<open>stop\<close>.\<close>

definition range32 :: "int \<Rightarrow> int \<Rightarrow> int list" where
  "range32 start stop = map (\<lambda>k. start + 32 * int k) [0..<nat ((stop - start + 31) div 32)]"

definition make_return_stmt ::
  "externals \<Rightarrow> stmt \<Rightarrow> Context \<Rightarrow> raw \<Rightarrow> raw \<Rightarrow> int option \<Rightarrow> raw \<times> Context" where
  "make_return_stmt ext st ctx begin_pos size' loop_memory_position =
    (let nonreentrant_post = snd (nonreentrant_lock ctx) in
     if is_private ctx then
       (let (loop_pos, ctx') =
              (case loop_memory_position of
                 None \<Rightarrow> new_placeholder ext ctx (BaseType ''uint256'' None False False)
               | Some p \<Rightarrow> (p, ctx));
            label_id = join_underscore
                         (map str_int [method_id ctx, lineno st, col_offset st]);
            exit_label = ''make_return_loop_exit_'' @ label_id;
            start_label = ''make_return_loop_start_'' @ label_id;
            jump = RList [RStr ''jump'', RList [RStr ''mload'', RInt (callback_ptr ctx)]]
        in case (begin_pos, size') of
             (RInt b, RInt s) \<Rightarrow>
               (RList ([RStr ''seq_unchecked'']
                       @ map (\<lambda>pos. RList [RStr ''mload'', RInt pos]) (range32 b s)
                       @ nonreentrant_post @ [jump]), ctx')
           | _ \<Rightarrow>
               (let mloads = RList
                      [RStr ''seq_unchecked'',
                       RList [RStr ''mstore'', RInt loop_pos, size'],
                       RList [RStr ''label'', RStr start_label],
                       RList [RStr ''if'',
                              RList [RStr ''le'', RList [RStr ''mload'', RInt loop_pos], RInt 0],
                              RList [RStr ''goto'', RStr exit_label]],
                       RList [RStr ''mload'',
                              RList [RStr ''add'', begin_pos,
                                     RList [RStr ''sub'', RList [RStr ''mload'', RInt loop_pos],
                                            RInt 32]]],
                       RList [RStr ''mstore'', RInt loop_pos,
                              RList [RStr ''sub'', RList [RStr ''mload'', RInt loop_pos],
                                     RInt 32]],
                       RList [RStr ''goto'', RStr start_label],
                       RList [RStr ''label'', RStr exit_label]]
                in (RList ([RStr ''seq_unchecked''] @ [mloads] @ nonreentrant_post @ [jump]),
                    ctx')))
     else
       (RList ([RStr ''seq_unchecked''] @ nonreentrant_post
               @ [RList [RStr ''return'', begin_pos, size']]), ctx))"

text \<open>A guarded private function and a return statement, for the worked examples.\<close>

definition sample_stmt :: stmt where
  "sample_stmt = \<lparr>lineno = 12, col_offset = 4\<rparr>"

definition sample_context :: Context where
  "sample_context =
     \<lparr>is_private = True, method_id = 1234, callback_ptr = 320,
      nonreentrant_lock = ([RList [RStr ''sstore'', RInt 7, RInt 1]],
                           [RList [RStr ''sstore'', RInt 7, RInt 0]]),
      next_placeholder = 640\<rparr>"

section \<open>Run-time reading of the emitted code\<close>

text \<open>
  Modelled from the spec: the operation \<^verbatim>\<open>uclamplt\<close> is compiled elsewhere; the
  specification calls it an unsigned-less-than clamp. On 256-bit machine words it yields
  its first argument when that is below the bound, compared as unsigned numbers, and
  aborts execution (None) otherwise.
\<close>

definition uclamplt :: "256 word \<Rightarrow> 256 word \<Rightarrow> 256 word option" where
  "uclamplt x bound = (if x < bound then Some x else None)"

text \<open>
  Modelled from the spec: the machine that runs the emitted code is not in this file. Its
  state here is the memory and the call data, two byte sequences (a byte is a natural
  number). A read past the end of either gives zero and a write past the end of memory
  extends it. \<^verbatim>\<open>calldatacopy\<close> copies \<open>len\<close> bytes of call data, from \<open>src\<close> on, to
  memory at \<open>dst\<close>; the comment in \<^verbatim>\<open>mzero\<close> relies on the bytes past the end of the
  call data being zero. \<open>mload_word\<close> is the big-endian value of the 32 bytes at an
  address.
\<close>

record machine =
  memory :: "nat list"
  calldata :: "nat list"

datatype outcome = Done "256 word" machine | Abort | Unmodelled

definition read_byte :: "nat list \<Rightarrow> nat \<Rightarrow> nat" where
  "read_byte bs a = (if a < length bs then bs ! a else 0)"

definition write_bytes :: "nat list \<Rightarrow> nat \<Rightarrow> nat list \<Rightarrow> nat list" where
  "write_bytes mem pos bs =
     take pos (mem @ replicate (pos - length mem) 0) @ bs @ drop (pos + length bs) mem"

definition mload_word :: "nat list \<Rightarrow> nat \<Rightarrow> nat" where
  "mload_word mem a = foldl (\<lambda>acc b. acc * 256 + b) 0 (map (read_byte mem) [a..<a + 32])"

definition calldatacopy :: "machine \<Rightarrow> nat \<Rightarrow> nat \<Rightarrow> nat \<Rightarrow> machine" where
  "calldatacopy m dst src len =
     m\<lparr>memory := write_bytes (memory m) dst
                     (map (\<lambda>k. read_byte (calldata m) (src + k)) [0..<len])\<rparr>"

text \<open>
  Modelled from the spec: the evaluation of an emitted expression to a 256-bit word, for
  the operations the properties below are about. The arguments of an operation are
  evaluated last to first, in the order in which they are pushed. \<open>h\<close> is the hash of one
  word behind \<^verbatim>\<open>sha3_32\<close>; a symbol without arguments is a variable bound by \<^verbatim>\<open>with\<close>.
  A clamp that fails ends the run with \<open>Abort\<close>; an operation outside this fragment gives
  \<open>Unmodelled\<close>.
\<close>

fun run ::
  "(256 word \<Rightarrow> 256 word) \<Rightarrow> (string \<times> 256 word) list \<Rightarrow> LLLnode \<Rightarrow> machine \<Rightarrow> outcome" where
  "run h env (LLLnode (AInt n) args t l) m =
     (if args = [] then Done (word_of_int n) m else Unmodelled)"
| "run h env (LLLnode ANone args t l) m = Unmodelled"
| "run h env (LLLnode (AStr s) args t l) m =
     (if s = ''with'' then
        (case args of
           [v, e, body] \<Rightarrow>
             (case value_of v of
                AStr x \<Rightarrow>
                  (case run h env e m of
                     Done a m' \<Rightarrow> run h ((x, a) # env) body m'
                   | r \<Rightarrow> r)
              | _ \<Rightarrow> Unmodelled)
         | _ \<Rightarrow> Unmodelled)
      else if s = ''calldatacopy'' then
        (case args of
           [d, src, len] \<Rightarrow>
             (case run h env len m of
                Done n m1 \<Rightarrow>
                  (case run h env src m1 of
                     Done sp m2 \<Rightarrow>
                       (case run h env d m2 of
                          Done dp m3 \<Rightarrow> Done 0 (calldatacopy m3 (unat dp) (unat sp) (unat n))
                        | r \<Rightarrow> r)
                   | r \<Rightarrow> r)
              | r \<Rightarrow> r)
         | _ \<Rightarrow> Unmodelled)
      else if s = ''add'' \<or> s = ''mul'' then
        (case args of
           [a, b] \<Rightarrow>
             (case run h env b m of
                Done y m1 \<Rightarrow>
                  (case run h env a m1 of
                     Done x m2 \<Rightarrow> Done (if s = ''add'' then x + y else x * y) m2
                   | r \<Rightarrow> r)
              | r \<Rightarrow> r)
         | _ \<Rightarrow> Unmodelled)
      else if s = ''uclamplt'' then
        (case args of
           [a, b] \<Rightarrow>
             (case run h env b m of
                Done y m1 \<Rightarrow>
                  (case run h env a m1 of
                     Done x m2 \<Rightarrow>
                       (case uclamplt x y of None \<Rightarrow> Abort | Some w \<Rightarrow> Done w m2)
                   | r \<Rightarrow> r)
              | r \<Rightarrow> r)
         | _ \<Rightarrow> Unmodelled)
      else if s = ''sha3_32'' then
        (case args of
           [a] \<Rightarrow> (case run h env a m of Done x m1 \<Rightarrow> Done (h x) m1 | r \<Rightarrow> r)
         | _ \<Rightarrow> Unmodelled)
      else if s = ''calldatasize'' \<and> args = [] then Done (of_nat (length (calldata m))) m
      else if args = [] then
        (case map_of env s of None \<Rightarrow> Unmodelled | Some a \<Rightarrow> Done a m)
      else Unmodelled)"

text \<open>A machine state for the worked examples.\<close>

definition sample_machine :: machine where
  "sample_machine = \<lparr>memory = replicate 64 1, calldata = [1, 2, 3]\<rparr>"

section \<open>Properties\<close>

lemma bindE_simps [simp]:
  "bindE (Inl e) f = Inl e"
  "bindE (Inr x) f = f x"
  by (simp_all add: bindE_def)

subsection \<open>Bounds preconditions of the byte-array copier\<close>

lemma unsupported_location_not_tm: "unsupported_location l \<noteq> TypeMismatchException"
  by (simp add: unsupported_location_def split: option.split)

lemma slice_not_tm: "make_byte_slice_copier ext d s l m \<noteq> Inl TypeMismatchException"
  by (simp add: make_byte_slice_copier_def Let_def bindE_def unsupported_location_not_tm)

lemma bindE_not_tm:
  "m \<noteq> Inl TypeMismatchException \<Longrightarrow> (\<And>x. f x \<noteq> Inl TypeMismatchException) \<Longrightarrow>
   bindE m f \<noteq> Inl TypeMismatchException"
  by (cases m) simp_all

lemma maxlen_ByteArrayLike: "maxlen t = Inr n \<Longrightarrow> is_ByteArrayLike t"
  by (cases t rule: maxlen.cases) simp_all

text \<open>
  Claim C7. For a byte-array source and destination with maximum lengths \<open>smax\<close> and
  \<open>dmax\<close>, \<^verbatim>\<open>make_byte_array_copier\<close> raises TypeMismatchException whenever
  \<open>smax > dmax\<close>, and, for a source whose value is None, whenever \<open>smax \<noteq> dmax\<close>;
  when neither holds it raises no TypeMismatchException at all (the only errors left are
  those for an unsupported location).
\<close>

theorem make_byte_array_copier_bounds:
  assumes "maxlen (typ_of source) = Inr smax" and "maxlen (typ_of destination) = Inr dmax"
  shows "(smax > dmax \<longrightarrow>
            make_byte_array_copier ext destination source = Inl TypeMismatchException)
    \<and> (value_of source = ANone \<and> smax \<noteq> dmax \<longrightarrow>
          make_byte_array_copier ext destination source = Inl TypeMismatchException)
    \<and> (smax \<le> dmax \<and> (value_of source = ANone \<longrightarrow> smax = dmax) \<longrightarrow>
          make_byte_array_copier ext destination source \<noteq> Inl TypeMismatchException)"
proof (intro conjI impI)
  note bal = maxlen_ByteArrayLike [OF assms(1)]
  show "make_byte_array_copier ext destination source = Inl TypeMismatchException"
    if "smax > dmax"
    using that assms bal by (simp add: make_byte_array_copier_def)
  show "make_byte_array_copier ext destination source = Inl TypeMismatchException"
    if "value_of source = ANone \<and> smax \<noteq> dmax"
    using that assms bal by (simp add: make_byte_array_copier_def)
  show "make_byte_array_copier ext destination source \<noteq> Inl TypeMismatchException"
    if "smax \<le> dmax \<and> (value_of source = ANone \<longrightarrow> smax = dmax)"
    using that assms bal
    by (simp add: make_byte_array_copier_def Let_def unsupported_location_not_tm
        bindE_not_tm slice_not_tm)
qed

text \<open>
  The narrowing example of the specification: a \<^verbatim>\<open>bytes[40]\<close> source into a
  \<^verbatim>\<open>bytes[20]\<close> destination; and a copy between equal bounds, which passes.
\<close>

theorem make_byte_array_copier_bounds_witness:
  "make_byte_array_copier sample_externals
     (LLLnode (AInt 320) [] (Some (ByteArrayType 20)) (Some ''memory''))
     (LLLnode (AInt 640) [] (Some (ByteArrayType 40)) (Some ''memory''))
   = Inl TypeMismatchException
   \<and> make_byte_array_copier sample_externals
     (LLLnode (AInt 320) [] (Some (ByteArrayType 40)) (Some ''storage''))
     (LLLnode (AInt 640) [] (Some (ByteArrayType 40)) (Some ''memory''))
   \<noteq> Inl TypeMismatchException"
  using make_byte_array_copier_bounds
     [of "LLLnode (AInt 640) [] (Some (ByteArrayType 40)) (Some ''memory'')" 40
         "LLLnode (AInt 320) [] (Some (ByteArrayType 20)) (Some ''memory'')" 20
         sample_externals]
    make_byte_array_copier_bounds
     [of "LLLnode (AInt 640) [] (Some (ByteArrayType 40)) (Some ''memory'')" 40
         "LLLnode (AInt 320) [] (Some (ByteArrayType 40)) (Some ''storage'')" 40
         sample_externals]
  by simp

subsection \<open>The epilogue\<close>

lemma make_return_stmt_unrolled:
  "is_private ctx \<Longrightarrow>
   fst (make_return_stmt ext st ctx (RInt b) (RInt s) lmp) =
     RList ([RStr ''seq_unchecked'']
            @ map (\<lambda>pos. RList [RStr ''mload'', RInt pos]) (range32 b s)
            @ snd (nonreentrant_lock ctx)
            @ [RList [RStr ''jump'', RList [RStr ''mload'', RInt (callback_ptr ctx)]]])"
  by (simp add: make_return_stmt_def Let_def split: prod.split option.split)

lemma range32_32_64: "range32 32 64 = [32]"
  by (simp add: range32_def)

lemma range32_0_64: "range32 0 64 = [0, 32]"
proof -
  have "[0..<2] = [0, Suc 0]"
    by (simp add: upt_rec)
  then show ?thesis
    by (simp add: range32_def)
qed

text \<open>
  Claim C2, evaluated where it fails. With the constant offset 32 and size 64 the result
  region is \<open>[32, 96)\<close>, two words; the unrolled branch iterates
  \<^verbatim>\<open>range(begin_pos, _size, 32)\<close>, so it loads the word at 32 only. With offset 0 and
  size 64 it loads both words, in ascending order (the word at 0 is pushed first), where
  the counted loop of the other branch pushes the last word first.
\<close>

theorem make_return_stmt_unrolled_misses_words:
  "fst (make_return_stmt sample_externals sample_stmt sample_context (RInt 32) (RInt 64) None) =
     RList [RStr ''seq_unchecked'',
            RList [RStr ''mload'', RInt 32],
            RList [RStr ''sstore'', RInt 7, RInt 0],
            RList [RStr ''jump'', RList [RStr ''mload'', RInt 320]]]
   \<and> fst (make_return_stmt sample_externals sample_stmt sample_context (RInt 0) (RInt 64) None) =
     RList [RStr ''seq_unchecked'',
            RList [RStr ''mload'', RInt 0],
            RList [RStr ''mload'', RInt 32],
            RList [RStr ''sstore'', RInt 7, RInt 0],
            RList [RStr ''jump'', RList [RStr ''mload'', RInt 320]]]"
  by (simp add: make_return_stmt_unrolled range32_32_64 range32_0_64 sample_context_def)

text \<open>
  Claim C6. The whole list that \<^verbatim>\<open>make_return_stmt\<close> emits, branch by branch. After the
  head symbol come the pushes of the result: one \<^verbatim>\<open>mload\<close> per element of the range for a
  private function with a constant offset and size, the counted push loop as a single
  nested sequence for any other private function, nothing for a public function. Then
  comes the guard-release code, and then, as the last element, the control transfer: the
  indirect jump through the callback pointer for a private function, the native return
  otherwise. The list holds nothing else: no jump and no return stands before the release,
  and the \<^verbatim>\<open>goto\<close>s of the push loop target its own two labels, the exit label being the
  last element of the nested sequence, so that control falls from it into the release.
\<close>

theorem make_return_stmt_guard_release:
  "fst (make_return_stmt ext st ctx begin_pos size' lmp) =
     (if is_private ctx then
        RList (RStr ''seq_unchecked'' #
          (case (begin_pos, size') of
             (RInt b, RInt s) \<Rightarrow> map (\<lambda>pos. RList [RStr ''mload'', RInt pos]) (range32 b s)
           | _ \<Rightarrow>
             [RList
                [RStr ''seq_unchecked'',
                 RList [RStr ''mstore'',
                        RInt (case lmp of None \<Rightarrow> next_placeholder ctx | Some p \<Rightarrow> p), size'],
                 RList [RStr ''label'',
                        RStr (''make_return_loop_start_'' @ join_underscore
                                (map str_int [method_id ctx, lineno st, col_offset st]))],
                 RList [RStr ''if'',
                        RList [RStr ''le'',
                               RList [RStr ''mload'',
                                      RInt (case lmp of None \<Rightarrow> next_placeholder ctx
                                            | Some p \<Rightarrow> p)],
                               RInt 0],
                        RList [RStr ''goto'',
                               RStr (''make_return_loop_exit_'' @ join_underscore
                                       (map str_int [method_id ctx, lineno st, col_offset st]))]],
                 RList [RStr ''mload'',
                        RList [RStr ''add'', begin_pos,
                               RList [RStr ''sub'',
                                      RList [RStr ''mload'',
                                             RInt (case lmp of None \<Rightarrow> next_placeholder ctx
                                                   | Some p \<Rightarrow> p)],
                                      RInt 32]]],
                 RList [RStr ''mstore'',
                        RInt (case lmp of None \<Rightarrow> next_placeholder ctx | Some p \<Rightarrow> p),
                        RList [RStr ''sub'',
                               RList [RStr ''mload'',
                                      RInt (case lmp of None \<Rightarrow> next_placeholder ctx
                                            | Some p \<Rightarrow> p)],
                               RInt 32]],
                 RList [RStr ''goto'',
                        RStr (''make_return_loop_start_'' @ join_underscore
                                (map str_int [method_id ctx, lineno st, col_offset st]))],
                 RList [RStr ''label'',
                        RStr (''make_return_loop_exit_'' @ join_underscore
                                (map str_int [method_id ctx, lineno st, col_offset st]))]]])
          @ snd (nonreentrant_lock ctx)
          @ [RList [RStr ''jump'', RList [RStr ''mload'', RInt (callback_ptr ctx)]]])
      else
        RList (RStr ''seq_unchecked'' # snd (nonreentrant_lock ctx)
               @ [RList [RStr ''return'', begin_pos, size']]))"
  by (simp add: make_return_stmt_def new_placeholder_def Let_def
           split: prod.split raw.split option.split)

subsection \<open>Literal checks of the scalar conversion\<close>

lemma in_bounds_int_total:
  "t = ''int128'' \<or> t = ''uint256'' \<Longrightarrow> \<exists>ok. in_bounds t (AInt v) = Inr ok"
  by (auto simp: in_bounds_def)

lemma in_bounds_uint256_minus_one: "in_bounds ''uint256'' (AInt (- 1)) = Inr False"
  by (simp add: in_bounds_def)

lemma in_bounds_int128_minus_one: "in_bounds ''int128'' (AInt (- 1)) = Inr True"
  by (simp add: in_bounds_def)

lemma conversion_result_value:
  assumes "(if \<not> (is_BaseType frm \<and> is_BaseType to) then Inl TypeMismatchException
             else if c1 then Inr (LLLnode (value_of orig) (args_of orig) to None)
             else if c2 then Inr (LLLnode (value_of orig) (args_of orig) to None)
             else if c3 then Inr (LLLnode (AStr ''mul'') [orig, lit d] t3 None)
             else if c4 then Inr (LLLnode (value_of orig) (args_of orig) to None)
             else Inl TypeMismatchException) = Inr r"
  shows "value_of r = value_of orig \<or> (value_of r = AStr ''mul'' \<and> args_of r = [orig, lit d])"
  using assms by (auto split: if_split_asm)

text \<open>
  Claim C4 as stated fails: the range check of \<^verbatim>\<open>base_type_conversion\<close> is against the
  bounds of the literal's own type \<^verbatim>\<open>frm.typ\<close>, not the destination's. The int128 literal
  \<open>-1\<close> converts to uint256 without an error, although \<open>-1\<close> is outside uint256.
\<close>

theorem base_type_conversion_destination_unchecked:
  "base_type_conversion sample_externals
     (LLLnode (AInt (- 1)) [] (Some (BaseType ''int128'' None False True)) None)
     (Some (BaseType ''int128'' None False True)) (Some (BaseType ''uint256'' None False False))
     False
   = Inr (LLLnode (AInt (- 1)) [] (Some (BaseType ''uint256'' None False False)) None)
   \<and> in_bounds ''uint256'' (AInt (- 1)) = Inr False"
  by (simp add: base_type_conversion_def unwrap_location_def in_bounds_uint256_minus_one
      in_bounds_int128_minus_one is_base_type_def units_compatible_def Let_def)

text \<open>
  Claim C4, amended. For a literal operand of type int128 or uint256 whose value is the
  int \<open>v\<close>: if \<open>v\<close> is outside the range of the literal's own type the conversion raises
  InvalidLiteralException; in a function call, a literal whose unit or positional flag
  differs from those of the destination base type raises InvalidLiteralException; and
  when the conversion returns a node, \<open>v\<close> is within the range of the literal's type and
  the node carries \<open>v\<close> itself, or is the product of the operand and the decimal divisor:
  the value is never truncated.
\<close>

theorem base_type_conversion_literal_checks:
  assumes lit: "literal_flag frm"
    and ty: "typ_name frm = ''int128'' \<or> typ_name frm = ''uint256''"
    and v: "value_of (unwrap_location orig) = AInt v"
  shows "(in_bounds (typ_name frm) (AInt v) = Inr False \<longrightarrow>
            base_type_conversion ext orig frm to fc = Inl InvalidLiteralException)
       \<and> (fc \<and> is_BaseType to
            \<and> \<not> (unit_of frm = unit_of to \<and> positional_of frm = positional_of to) \<longrightarrow>
            base_type_conversion ext orig frm to fc = Inl InvalidLiteralException)
       \<and> (\<forall>r. base_type_conversion ext orig frm to fc = Inr r \<longrightarrow>
            in_bounds (typ_name frm) (AInt v) = Inr True
            \<and> (value_of r = AInt v
                \<or> (value_of r = AStr ''mul''
                    \<and> args_of r = [unwrap_location orig, lit (DECIMAL_DIVISOR ext)])))"
proof -
  obtain ok where ok: "in_bounds (typ_name frm) (AInt v) = Inr ok"
    using in_bounds_int_total [OF ty] by blast
  have lit': "literal_flag frm \<and> typ_name frm \<in> set [''int128'', ''uint256'']"
    using lit ty by auto
  show ?thesis
  proof (cases ok)
    case False
    then have "base_type_conversion ext orig frm to fc = Inl InvalidLiteralException"
      using ok lit' v by (simp add: base_type_conversion_def Let_def)
    then show ?thesis using ok False by (intro conjI impI allI) simp_all
  next
    case True
    show ?thesis
    proof (cases "fc \<and> \<not> (is_BaseType to \<and> unit_of frm = unit_of to
                         \<and> positional_of frm = positional_of to)")
      case bad: True
      then have "base_type_conversion ext orig frm to fc =
          (if is_BaseType to then Inl InvalidLiteralException else Inl AttributeError)"
        using ok True lit' v by (simp add: base_type_conversion_def Let_def)
      then show ?thesis using ok True bad by auto
    next
      case good: False
      have eq: "base_type_conversion ext orig frm to fc =
        (if \<not> (is_BaseType frm \<and> is_BaseType to) then Inl TypeMismatchException
         else if is_base_type frm [typ_name to] \<and> units_compatible ext frm to then
           Inr (LLLnode (value_of (unwrap_location orig)) (args_of (unwrap_location orig)) to None)
         else if is_ContractType frm \<and> is_plain_address to then
           Inr (LLLnode (value_of (unwrap_location orig)) (args_of (unwrap_location orig)) to None)
         else if (is_base_type frm [''int128''] \<and> is_base_type to [''decimal''])
            \<and> units_compatible ext frm to then
           Inr (LLLnode (AStr ''mul'') [unwrap_location orig, lit (DECIMAL_DIVISOR ext)]
                  (Some (BaseType ''decimal'' (unit_of to) (positional_of to) False)) None)
         else if typ_name frm = ''int128'' \<and> typ_name to = ''uint256'' \<and> literal_flag frm
         then
           Inr (LLLnode (value_of (unwrap_location orig)) (args_of (unwrap_location orig)) to None)
         else Inl TypeMismatchException)"
        using ok True lit' v good
        by (simp add: base_type_conversion_def Let_def)
      have "value_of r = AInt v
                \<or> (value_of r = AStr ''mul''
                    \<and> args_of r = [unwrap_location orig, lit (DECIMAL_DIVISOR ext)])"
        if "base_type_conversion ext orig frm to fc = Inr r" for r
        using conversion_result_value [OF that [unfolded eq]] v by simp
      then show ?thesis using ok True good by auto
    qed
  qed
qed

text \<open>
  The int128 literal \<open>2^127\<close> is rejected (it is outside int128, although inside the
  destination uint256); in a call, the literal \<open>100\<close> without a positional flag is rejected
  for a positional destination; outside a call the literal \<open>100\<close> converts to \<open>100\<close>.
\<close>

theorem base_type_conversion_literal_checks_witness:
  "base_type_conversion sample_externals
     (LLLnode (AInt (2 ^ 127)) [] (Some (BaseType ''int128'' None False True)) None)
     (Some (BaseType ''int128'' None False True)) (Some (BaseType ''uint256'' None False False))
     False = Inl InvalidLiteralException
   \<and> base_type_conversion sample_externals
     (LLLnode (AInt 100) [] (Some (BaseType ''int128'' None False True)) None)
     (Some (BaseType ''int128'' None False True)) (Some (BaseType ''int128'' None True False))
     True = Inl InvalidLiteralException
   \<and> in_bounds ''int128'' (AInt 100) = Inr True"
proof -
  have a: "in_bounds ''int128'' (AInt (2 ^ 127)) = Inr False"
    by (simp add: in_bounds_def)
  have b: "in_bounds ''int128'' (AInt 100) = Inr True"
    by (simp add: in_bounds_def)
  have r: "base_type_conversion sample_externals
     (LLLnode (AInt 100) [] (Some (BaseType ''int128'' None False True)) None)
     (Some (BaseType ''int128'' None False True)) (Some (BaseType ''int128'' None False False))
     False = Inr (LLLnode (AInt 100) [] (Some (BaseType ''int128'' None False False)) None)"
    by (simp add: base_type_conversion_def unwrap_location_def b is_base_type_def
        units_compatible_def sample_externals_def Let_def)
  show ?thesis
    using base_type_conversion_literal_checks
      [of "Some (BaseType ''int128'' None False True)"
          "LLLnode (AInt (2 ^ 127)) [] (Some (BaseType ''int128'' None False True)) None"
          "2 ^ 127" sample_externals "Some (BaseType ''uint256'' None False False)" False]
      base_type_conversion_literal_checks
      [of "Some (BaseType ''int128'' None False True)"
          "LLLnode (AInt 100) [] (Some (BaseType ''int128'' None False True)) None"
          100 sample_externals "Some (BaseType ''int128'' None True False)" True]
      base_type_conversion_literal_checks
      [of "Some (BaseType ''int128'' None False True)"
          "LLLnode (AInt 100) [] (Some (BaseType ''int128'' None False True)) None"
          100 sample_externals "Some (BaseType ''int128'' None False False)" False] r a b
    by (simp add: unwrap_location_def)
qed

subsection \<open>The address resolver\<close>

lemma bindE_InrD: "bindE m f = Inr y \<Longrightarrow> \<exists>x. m = Inr x \<and> f x = Inr y"
  by (cases m) simp_all

lemma member_offset_location:
  "member_offset ext parent t st i m = Inr (Some n) \<Longrightarrow>
   location_of n \<noteq> Some ''storage_prehashed''
   \<and> (location_of parent = Some ''storage_prehashed'' \<longrightarrow> location_of n = Some ''storage'')"
  by (auto simp: member_offset_def bindE_def split: if_split_asm option.split_asm sum.split_asm)

lemma list_offset_location:
  "list_offset ext parent st sub = Inr (Some n) \<Longrightarrow>
   location_of n \<noteq> Some ''storage_prehashed''
   \<and> (location_of parent = Some ''storage_prehashed'' \<longrightarrow> location_of n = Some ''storage'')"
  by (auto simp: list_offset_def split: if_split_asm)

lemma mapping_offset_location:
  assumes "mapping_offset ext parent kt vt k = Inr (Some n)"
  shows "location_of n \<noteq> Some ''storage_prehashed''
   \<and> (location_of parent = Some ''storage_prehashed'' \<longrightarrow> location_of n = Some ''storage'')"
proof -
  obtain sub where
    "(if location_of parent = Some ''storage'' then
        Inr (Some (LLLnode (AStr ''sha3_64'') [parent, sub] (Some vt) (Some ''storage'')))
      else if location_of parent = Some ''memory'' \<or> location_of parent = Some ''calldata''
      then Inl TypeMismatchException
      else Inr None) = Inr (Some n)"
    using bindE_InrD [OF assms [unfolded mapping_offset_def]] by blast
  then show ?thesis
    by (auto split: if_split_asm)
qed

text \<open>
  A node that \<^verbatim>\<open>add_variable_offset\<close> returns is never tagged \<^verbatim>\<open>storage_prehashed\<close>, and
  one returned for a parent located in \<^verbatim>\<open>storage_prehashed\<close> is tagged \<^verbatim>\<open>storage\<close>.
\<close>

lemma add_variable_offset_location:
  assumes "add_variable_offset ext parent k abc = Inr (Some n)"
  shows "location_of n \<noteq> Some ''storage_prehashed''
    \<and> (location_of parent = Some ''storage_prehashed'' \<longrightarrow> location_of n = Some ''storage'')"
proof (cases "typ_of parent")
  case None
  then show ?thesis using assms by (simp add: add_variable_offset_def)
next
  case (Some t)
  show ?thesis
  proof (cases t)
    case (StructType ms name)
    then show ?thesis using assms Some
      by (auto simp: add_variable_offset_def split: key.split_asm option.split_asm
          dest: member_offset_location)
  next
    case (TupleType ms)
    then show ?thesis using assms Some
      by (auto simp: add_variable_offset_def split: key.split_asm dest: member_offset_location)
  next
    case (MappingType kt vt)
    then show ?thesis using assms Some
      by (auto simp: add_variable_offset_def split: key.split_asm dest: mapping_offset_location)
  next
    case (ListType st c)
    then show ?thesis using assms Some
      by (auto simp: add_variable_offset_def bindE_def split: key.split_asm sum.split_asm
          dest: list_offset_location)
  qed (use assms Some in \<open>simp_all add: add_variable_offset_def\<close>)
qed

text \<open>
  Claim C10, on the code. No returned node is tagged \<^verbatim>\<open>storage_prehashed\<close>. For a struct
  parent in \<^verbatim>\<open>storage_prehashed\<close> and a member of it, and for a list parent there and an
  index that passes the index policy, the child is \<open>parent + index\<close>, with no hash, tagged
  \<^verbatim>\<open>storage\<close>; a parent tagged \<^verbatim>\<open>storage\<close>, as that child is, is hashed again
  (\<^verbatim>\<open>sha3_32\<close>) when one of its own children is resolved. The claim fails for tuples: for
  a tuple parent in \<^verbatim>\<open>storage_prehashed\<close> no child is returned, whatever the key. A key
  that is an int reaches the prehashed return, which reads the local variable
  \<^verbatim>\<open>subtype\<close> that the tuple branch never assigned, and raises UnboundLocalError; any
  other key raises TypeMismatchException.
\<close>

theorem add_variable_offset_prehashed_children:
  "(\<forall>n. add_variable_offset ext parent k abc = Inr (Some n) \<longrightarrow>
        location_of n \<noteq> Some ''storage_prehashed'')
   \<and> (location_of parent = Some ''storage_prehashed''
        \<and> typ_of parent = Some (StructType fs name) \<and> map_of fs s = Some t \<longrightarrow>
        add_variable_offset ext parent (KStr s) abc =
          Inr (Some (LLLnode (AStr ''add'') [parent, lit (int (index_of s (map fst fs)))]
                       (Some t) (Some ''storage''))))
   \<and> (location_of parent = Some ''storage_prehashed''
        \<and> typ_of parent = Some (ListType st count) \<and> list_index kn count abc = Inr sub \<longrightarrow>
        add_variable_offset ext parent (KNode kn) abc =
          Inr (Some (LLLnode (AStr ''add'') [parent, sub] (Some st) (Some ''storage''))))
   \<and> (location_of parent = Some ''storage''
        \<and> typ_of parent = Some (StructType fs name) \<and> map_of fs s = Some t \<longrightarrow>
        add_variable_offset ext parent (KStr s) abc =
          Inr (Some (LLLnode (AStr ''add'')
                       [op ''sha3_32'' [parent], lit (int (index_of s (map fst fs)))]
                       (Some t) (Some ''storage''))))
   \<and> (location_of parent = Some ''storage''
        \<and> typ_of parent = Some (ListType st count) \<and> list_index kn count abc = Inr sub \<longrightarrow>
        add_variable_offset ext parent (KNode kn) abc =
          Inr (Some (LLLnode (AStr ''add'') [op ''sha3_32'' [parent], sub]
                       (Some st) (Some ''storage''))))
   \<and> (location_of parent = Some ''storage_prehashed''
        \<and> typ_of parent = Some (TupleType ms) \<longrightarrow>
        add_variable_offset ext parent k abc =
          Inl (case k of KInt i \<Rightarrow> UnboundLocalError | _ \<Rightarrow> TypeMismatchException))"
proof (intro conjI allI impI)
  fix n
  assume "add_variable_offset ext parent k abc = Inr (Some n)"
  from add_variable_offset_location [OF this]
  show "location_of n \<noteq> Some ''storage_prehashed''" by simp
next
  assume "location_of parent = Some ''storage_prehashed''
        \<and> typ_of parent = Some (StructType fs name) \<and> map_of fs s = Some t"
  then show "add_variable_offset ext parent (KStr s) abc =
          Inr (Some (LLLnode (AStr ''add'') [parent, lit (int (index_of s (map fst fs)))]
                       (Some t) (Some ''storage'')))"
    by (simp add: add_variable_offset_def member_offset_def)
next
  assume "location_of parent = Some ''storage_prehashed''
        \<and> typ_of parent = Some (ListType st count) \<and> list_index kn count abc = Inr sub"
  then show "add_variable_offset ext parent (KNode kn) abc =
          Inr (Some (LLLnode (AStr ''add'') [parent, sub] (Some st) (Some ''storage'')))"
    by (simp add: add_variable_offset_def list_offset_def)
next
  assume "location_of parent = Some ''storage''
        \<and> typ_of parent = Some (StructType fs name) \<and> map_of fs s = Some t"
  then show "add_variable_offset ext parent (KStr s) abc =
          Inr (Some (LLLnode (AStr ''add'')
                       [op ''sha3_32'' [parent], lit (int (index_of s (map fst fs)))]
                       (Some t) (Some ''storage'')))"
    by (simp add: add_variable_offset_def member_offset_def)
next
  assume "location_of parent = Some ''storage''
        \<and> typ_of parent = Some (ListType st count) \<and> list_index kn count abc = Inr sub"
  then show "add_variable_offset ext parent (KNode kn) abc =
          Inr (Some (LLLnode (AStr ''add'') [op ''sha3_32'' [parent], sub]
                       (Some st) (Some ''storage'')))"
    by (simp add: add_variable_offset_def list_offset_def)
next
  assume "location_of parent = Some ''storage_prehashed''
        \<and> typ_of parent = Some (TupleType ms)"
  then show "add_variable_offset ext parent k abc =
          Inl (case k of KInt i \<Rightarrow> UnboundLocalError | _ \<Rightarrow> TypeMismatchException)"
    by (simp add: add_variable_offset_def member_offset_def split: key.split)
qed


text \<open>
  A struct in prehashed storage with a list member: the member is \<open>_L + 1\<close>, tagged
  \<^verbatim>\<open>storage\<close>, and its element 2 hashes that address again. An element of a list in
  prehashed storage is \<open>_L + index\<close>. Member 0 of a tuple in prehashed storage raises. A
  member of a struct in storage is addressed through the hash of the struct.
\<close>

theorem add_variable_offset_prehashed_children_witness:
  "add_variable_offset sample_externals
     (LLLnode (AStr ''_L'') []
        (Some (StructType [(''a'', BaseType ''int128'' None False False),
                           (''b'', ListType (BaseType ''int128'' None False False) 3)] ''Pair''))
        (Some ''storage_prehashed'')) (KStr ''b'') True
   = Inr (Some (LLLnode (AStr ''add'')
                  [LLLnode (AStr ''_L'') []
                     (Some (StructType [(''a'', BaseType ''int128'' None False False),
                                        (''b'', ListType (BaseType ''int128'' None False False) 3)]
                              ''Pair''))
                     (Some ''storage_prehashed''),
                   lit 1]
                  (Some (ListType (BaseType ''int128'' None False False) 3)) (Some ''storage'')))
   \<and> add_variable_offset sample_externals
     (LLLnode (AStr ''add'')
                  [LLLnode (AStr ''_L'') []
                     (Some (StructType [(''a'', BaseType ''int128'' None False False),
                                        (''b'', ListType (BaseType ''int128'' None False False) 3)]
                              ''Pair''))
                     (Some ''storage_prehashed''),
                   lit 1]
                  (Some (ListType (BaseType ''int128'' None False False) 3)) (Some ''storage''))
     (KNode (LLLnode (AInt 2) [] (Some (BaseType ''int128'' None False True)) None)) True
   = Inr (Some (LLLnode (AStr ''add'')
                  [op ''sha3_32''
                     [LLLnode (AStr ''add'')
                        [LLLnode (AStr ''_L'') []
                           (Some (StructType [(''a'', BaseType ''int128'' None False False),
                                              (''b'', ListType (BaseType ''int128'' None False False) 3)]
                                    ''Pair''))
                           (Some ''storage_prehashed''),
                         lit 1]
                        (Some (ListType (BaseType ''int128'' None False False) 3))
                        (Some ''storage'')],
                   LLLnode (AInt 2) [] (Some (BaseType ''int128'' None False True)) None]
                  (Some (BaseType ''int128'' None False False)) (Some ''storage'')))
   \<and> add_variable_offset sample_externals
     (LLLnode (AStr ''_L'') [] (Some (ListType (BaseType ''int128'' None False False) 3))
        (Some ''storage_prehashed''))
     (KNode (LLLnode (AInt 2) [] (Some (BaseType ''int128'' None False False)) None)) False
   = Inr (Some (LLLnode (AStr ''add'')
                  [LLLnode (AStr ''_L'') [] (Some (ListType (BaseType ''int128'' None False False) 3))
                     (Some ''storage_prehashed''),
                   LLLnode (AInt 2) [] (Some (BaseType ''int128'' None False False)) None]
                  (Some (BaseType ''int128'' None False False)) (Some ''storage'')))
   \<and> add_variable_offset sample_externals
     (LLLnode (AStr ''_L'') []
        (Some (TupleType [BaseType ''uint256'' None False False,
                          BaseType ''bool'' None False False]))
        (Some ''storage_prehashed'')) (KInt 0) True = Inl UnboundLocalError
   \<and> add_variable_offset sample_externals
     (LLLnode (AInt 7) []
        (Some (StructType [(''a'', BaseType ''int128'' None False False),
                           (''b'', BaseType ''uint256'' None False False)] ''Pair''))
        (Some ''storage'')) (KStr ''b'') True
   = Inr (Some (LLLnode (AStr ''add'')
                  [op ''sha3_32''
                     [LLLnode (AInt 7) []
                        (Some (StructType [(''a'', BaseType ''int128'' None False False),
                                           (''b'', BaseType ''uint256'' None False False)] ''Pair''))
                        (Some ''storage'')],
                   lit 1]
                  (Some (BaseType ''uint256'' None False False)) (Some ''storage'')))"
  using add_variable_offset_prehashed_children
    [where parent = "LLLnode (AStr ''_L'') []
        (Some (StructType [(''a'', BaseType ''int128'' None False False),
                           (''b'', ListType (BaseType ''int128'' None False False) 3)] ''Pair''))
        (Some ''storage_prehashed'')"
      and fs = "[(''a'', BaseType ''int128'' None False False),
                 (''b'', ListType (BaseType ''int128'' None False False) 3)]"
      and name = "''Pair''" and s = "''b''"
      and t = "ListType (BaseType ''int128'' None False False) 3"
      and ext = sample_externals and abc = True]
    add_variable_offset_prehashed_children
    [where parent = "LLLnode (AStr ''add'')
                  [LLLnode (AStr ''_L'') []
                     (Some (StructType [(''a'', BaseType ''int128'' None False False),
                                        (''b'', ListType (BaseType ''int128'' None False False) 3)]
                              ''Pair''))
                     (Some ''storage_prehashed''),
                   lit 1]
                  (Some (ListType (BaseType ''int128'' None False False) 3)) (Some ''storage'')"
      and st = "BaseType ''int128'' None False False" and count = 3
      and kn = "LLLnode (AInt 2) [] (Some (BaseType ''int128'' None False True)) None"
      and sub = "LLLnode (AInt 2) [] (Some (BaseType ''int128'' None False True)) None"
      and ext = sample_externals and abc = True]
    add_variable_offset_prehashed_children
    [where parent = "LLLnode (AStr ''_L'') []
        (Some (ListType (BaseType ''int128'' None False False) 3)) (Some ''storage_prehashed'')"
      and st = "BaseType ''int128'' None False False" and count = 3
      and kn = "LLLnode (AInt 2) [] (Some (BaseType ''int128'' None False False)) None"
      and sub = "LLLnode (AInt 2) [] (Some (BaseType ''int128'' None False False)) None"
      and ext = sample_externals and abc = False]
    add_variable_offset_prehashed_children
    [where parent = "LLLnode (AStr ''_L'') []
        (Some (TupleType [BaseType ''uint256'' None False False,
                          BaseType ''bool'' None False False]))
        (Some ''storage_prehashed'')"
      and ms = "[BaseType ''uint256'' None False False, BaseType ''bool'' None False False]"
      and k = "KInt 0" and ext = sample_externals and abc = True]
    add_variable_offset_prehashed_children
    [where parent = "LLLnode (AInt 7) []
        (Some (StructType [(''a'', BaseType ''int128'' None False False),
                           (''b'', BaseType ''uint256'' None False False)] ''Pair''))
        (Some ''storage'')"
      and fs = "[(''a'', BaseType ''int128'' None False False),
                 (''b'', BaseType ''uint256'' None False False)]"
      and name = "''Pair''" and s = "''b''" and t = "BaseType ''uint256'' None False False"
      and ext = sample_externals and abc = True]
  by (simp add: list_index_def is_base_type_def unwrap_location_def)

subsection \<open>Members of structs and tuples\<close>

lemma member_at_struct:
  assumes "distinct (map fst ms)" "i < length ms"
  shows "member_at (StructType ms name) i = Inr (snd (ms ! i))"
proof -
  have "(fst (ms ! i), snd (ms ! i)) \<in> set ms"
    using assms(2) by simp
  then have "map_of ms (fst (ms ! i)) = Some (snd (ms ! i))"
    using assms(1) by (simp add: map_of_eq_Some_iff)
  then show ?thesis using assms(2) by simp
qed

lemma offset_upto_struct:
  assumes "distinct (map fst ms)" "n \<le> length ms"
  shows "offset_upto ext (StructType ms name) n =
         Inr (sum_list (map (\<lambda>m. 32 * get_size_of_type ext (snd m)) (take n ms)))"
  using assms(2)
proof (induction n)
  case 0
  then show ?case by simp
next
  case (Suc n)
  then have "n < length ms" by simp
  then show ?case
    using Suc member_at_struct [OF assms(1), of n name]
    by (simp add: take_Suc_conv_app_nth)
qed

lemma offset_upto_tuple:
  assumes "n \<le> length ms"
  shows "offset_upto ext (TupleType ms) n =
         Inr (sum_list (map (\<lambda>m. 32 * get_size_of_type ext m) (take n ms)))"
  using assms
proof (induction n)
  case 0
  then show ?case by simp
next
  case (Suc n)
  then show ?case by (simp add: take_Suc_conv_app_nth)
qed

lemma index_of_less: "x \<in> set xs \<Longrightarrow> index_of x xs < length xs"
  by (induction xs) auto

text \<open>
  What holds of claim C5: for a struct parent with distinct member names and a member
  \<open>s\<close> of type \<open>t\<close> at position \<open>index\<close>, the child is \<open>sha3_32(parent) + index\<close> in
  storage, \<open>parent + index\<close> in prehashed storage, and in memory or calldata the parent
  plus the sum of \<open>32 * size\<close> of the members before it.
\<close>

lemma add_variable_offset_struct:
  assumes pt: "typ_of parent = Some (StructType ms name)"
    and dist: "distinct (map fst ms)"
    and mem: "map_of ms s = Some t"
  shows "add_variable_offset ext parent (KStr s) abc =
    (let index = index_of s (map fst ms) in
     if location_of parent = Some ''storage'' then
       Inr (Some (LLLnode (AStr ''add'') [op ''sha3_32'' [parent], lit (int index)]
                    (Some t) (Some ''storage'')))
     else if location_of parent = Some ''storage_prehashed'' then
       Inr (Some (LLLnode (AStr ''add'') [parent, lit (int index)] (Some t) (Some ''storage'')))
     else if location_of parent = Some ''calldata'' \<or> location_of parent = Some ''memory'' then
       Inr (Some (LLLnode (AStr ''add'')
              [lit (sum_list (map (\<lambda>m. 32 * get_size_of_type ext (snd m)) (take index ms))),
               parent] (Some t) (location_of parent)))
     else Inl TypeMismatchException)"
proof -
  have "s \<in> set (map fst ms)"
    using mem by (metis map_of_eq_None_iff option.distinct(1) set_map)
  then have "index_of s (map fst ms) \<le> length ms"
    using index_of_less [of s "map fst ms"] by simp
  then show ?thesis
    using pt mem offset_upto_struct [OF dist, of "index_of s (map fst ms)" ext name]
    by (simp add: add_variable_offset_def member_offset_def Let_def)
qed

text \<open>The same for a tuple parent in memory or calldata and a position within the tuple.\<close>

lemma add_variable_offset_tuple_memory:
  assumes pt: "typ_of parent = Some (TupleType ms)"
    and loc: "location_of parent = Some ''calldata'' \<or> location_of parent = Some ''memory''"
    and i: "0 \<le> i" "i < int (length ms)"
  shows "add_variable_offset ext parent (KInt i) abc =
       Inr (Some (LLLnode (AStr ''add'')
              [lit (sum_list (map (\<lambda>m. 32 * get_size_of_type ext m) (take (nat i) ms))),
               parent] (Some (ms ! nat i)) (location_of parent)))"
proof -
  have "nat i \<le> length ms" using i by simp
  then show ?thesis
    using pt loc i offset_upto_tuple [of "nat i" ms ext]
    by (auto simp: add_variable_offset_def member_offset_def py_index_def Let_def)
qed

text \<open>
  Claim C5, evaluated where it fails. The tuple branch of \<^verbatim>\<open>add_variable_offset\<close> never
  assigns the local variable \<^verbatim>\<open>subtype\<close>, which the storage and the prehashed-storage
  returns read: for a tuple parent in either location the function raises
  UnboundLocalError and computes no address.
\<close>

theorem add_variable_offset_tuple_storage_unbound:
  "add_variable_offset sample_externals
     (LLLnode (AInt 5) []
        (Some (TupleType [BaseType ''int128'' None False False,
                          BaseType ''int128'' None False False]))
        (Some ''storage'')) (KInt 1) True = Inl UnboundLocalError
   \<and> add_variable_offset sample_externals
     (LLLnode (AStr ''_L'') []
        (Some (TupleType [BaseType ''int128'' None False False,
                          BaseType ''int128'' None False False]))
        (Some ''storage_prehashed'')) (KInt 1) True = Inl UnboundLocalError"
  by (simp add: add_variable_offset_def member_offset_def)

subsection \<open>Bounds of list indices\<close>











lemma run_uclamplt:
  "run h env a m = Done x m \<Longrightarrow>
   run h env (LLLnode (AStr ''uclamplt'') [a, lit c] t l) m =
     (case uclamplt x (word_of_int c) of None \<Rightarrow> Abort | Some w \<Rightarrow> Done w m)"
  by simp





section \<open>The structural setter\<close>

text \<open>\<^verbatim>\<open>sub in s\<close> on strings.\<close>

fun is_substring :: "string \<Rightarrow> string \<Rightarrow> bool" where
  "is_substring sub [] = (sub = [])"
| "is_substring sub (c # cs) = (take (length sub) (c # cs) = sub \<or> is_substring sub cs)"

text \<open>
  A \<^verbatim>\<open>for\<close> loop that appends one result per element and stops at the first exception.
\<close>

fun mapE :: "('a \<Rightarrow> error + 'b) \<Rightarrow> 'a list \<Rightarrow> error + 'b list" where
  "mapE f [] = Inr []"
| "mapE f (x # xs) = bindE (f x) (\<lambda>y. bindE (mapE f xs) (\<lambda>ys. Inr (y # ys)))"

lemma bindE_cong [fundef_cong]:
  "m = m' \<Longrightarrow> (\<And>x. m' = Inr x \<Longrightarrow> f x = f' x) \<Longrightarrow> bindE m f = bindE m' f'"
  by (cases m') (simp_all add: bindE_def)

lemma mapE_cong [fundef_cong]:
  "xs = ys \<Longrightarrow> (\<And>x. x \<in> set ys \<Longrightarrow> f x = g x) \<Longrightarrow> mapE f xs = mapE g ys"
  by (induction ys arbitrary: xs) (auto simp: bindE_def)

text \<open>
  The branch of \<^verbatim>\<open>make_setter\<close> for a destination of base type: conversion, the range
  check of an int value against an integer destination, None replaced by 0, then the
  store for the location. When the location is neither \<^verbatim>\<open>storage\<close> nor \<^verbatim>\<open>memory\<close> the
  Python function falls off the \<^verbatim>\<open>if\<close>/\<^verbatim>\<open>elif\<close> and returns None.
\<close>

definition make_setter_base ::
  "externals \<Rightarrow> LLLnode \<Rightarrow> LLLnode \<Rightarrow> string option \<Rightarrow> bool \<Rightarrow> error + LLLnode option" where
  "make_setter_base ext left right location in_function_call =
    bindE (base_type_conversion ext right (typ_of right) (typ_of left) in_function_call)
      (\<lambda>r.
    bindE
      (if is_substring ''int'' (typ_name (typ_of left)) then
         (case value_of r of
            AInt v \<Rightarrow>
              bindE (in_bounds (typ_name (typ_of left)) (AInt v))
                (\<lambda>ok. if ok then Inr () else Inl InvalidLiteralException)
          | _ \<Rightarrow> Inr ())
       else Inr ())
      (\<lambda>_.
         (let r' = (if value_of r = ANone
                    then LLLnode (AInt 0) (args_of r) (typ_of r) (location_of r) else r)
          in if location = Some ''storage'' then Inr (Some (op ''sstore'' [left, r']))
             else if location = Some ''memory'' then Inr (Some (op ''mstore'' [left, r']))
             else Inr None)))"

text \<open>
  A sub-result that is None ends up in the list given to \<^verbatim>\<open>LLLnode.from_list\<close>, which
  makes a node with value None of it.
\<close>

definition node_of_result :: "LLLnode option \<Rightarrow> LLLnode" where
  "node_of_result r = (case r of None \<Rightarrow> LLLnode ANone [] None None | Some n \<Rightarrow> n)"

text \<open>\<^verbatim>\<open>LLLnode.from_list(i, typ='int128')\<close>, \<^verbatim>\<open>range(n)\<close>, and the tokens \<^verbatim>\<open>_L\<close>, \<^verbatim>\<open>_R\<close>.\<close>

definition index_key :: "int \<Rightarrow> key" where
  "index_key i = KNode (LLLnode (AInt i) [] (Some (BaseType ''int128'' None False False)) None)"

definition py_range :: "int \<Rightarrow> int list" where
  "py_range n = map int [0..<nat n]"

definition hashed_left :: "LLLnode \<Rightarrow> LLLnode" where
  "hashed_left left =
     (if location_of left = Some ''storage''
      then LLLnode (AStr ''sha3_32'') [left] (typ_of left) (Some ''storage_prehashed'')
      else left)"

definition left_token :: "LLLnode \<Rightarrow> LLLnode" where
  "left_token left =
     LLLnode (AStr ''_L'') [] (typ_of left)
       (if location_of left = Some ''storage'' then Some ''storage_prehashed''
        else location_of left)"

definition right_token :: "LLLnode \<Rightarrow> LLLnode" where
  "right_token right = LLLnode (AStr ''_R'') [] (typ_of right) (location_of right)"

fun is_ListType :: "vtype option \<Rightarrow> bool" where
  "is_ListType (Some (ListType t n)) = True"
| "is_ListType t = False"

fun is_StructType :: "vtype option \<Rightarrow> bool" where
  "is_StructType (Some (StructType ms n)) = True"
| "is_StructType t = False"

fun is_TupleType :: "vtype option \<Rightarrow> bool" where
  "is_TupleType (Some (TupleType ms)) = True"
| "is_TupleType t = False"

fun is_MappingType :: "vtype option \<Rightarrow> bool" where
  "is_MappingType (Some (MappingType k v)) = True"
| "is_MappingType t = False"

fun subtype_of :: "vtype option \<Rightarrow> vtype option" where
  "subtype_of (Some (ListType t n)) = Some t"
| "subtype_of t = None"

definition size_words :: "externals \<Rightarrow> vtype option \<Rightarrow> int" where
  "size_words ext t = (case t of None \<Rightarrow> 0 | Some t' \<Rightarrow> get_size_of_type ext t')"

fun count_of :: "vtype option \<Rightarrow> int" where
  "count_of (Some (ListType t n)) = n"
| "count_of t = 0"

fun member_names :: "vtype option \<Rightarrow> string list" where
  "member_names (Some (StructType ms n)) = map fst ms"
| "member_names t = []"

fun member_count :: "vtype option \<Rightarrow> nat" where
  "member_count (Some (StructType ms n)) = length ms"
| "member_count (Some (TupleType ms)) = length ms"
| "member_count t = 0"

fun struct_name :: "vtype option \<Rightarrow> string" where
  "struct_name (Some (StructType ms n)) = n"
| "struct_name t = []"

text \<open>
  The checks at the head of the struct and tuple branch (lines 629 to 665): an
  element-literal struct destination, then, for a source that is not null, the class of
  the source type, null children, member names both ways and the struct name, or the
  tuple arity.
\<close>

definition struct_tuple_checks :: "LLLnode \<Rightarrow> LLLnode \<Rightarrow> error + unit" where
  "struct_tuple_checks left right =
    (if value_of left = AStr ''multi'' \<and> is_StructType (typ_of left) then Inl PyException
     else if value_of right = ANone then Inr ()
     else if is_StructType (typ_of left) then
       (if \<not> is_StructType (typ_of right) then Inl TypeMismatchException
        else if list_ex (\<lambda>k. value_of k = ANone) (args_of right) then Inl CompilerPanic
        else if list_ex (\<lambda>k. k \<notin> set (member_names (typ_of right)))
                  (member_names (typ_of left))
        then Inl TypeMismatchException
        else if list_ex (\<lambda>k. k \<notin> set (member_names (typ_of left)))
                  (member_names (typ_of right))
        then Inl TypeMismatchException
        else if struct_name (typ_of left) = struct_name (typ_of right) then Inr ()
        else Inl TypeMismatchException)
     else
       (if \<not> is_TupleType (typ_of right) then Inl TypeMismatchException
        else if member_count (typ_of left) = member_count (typ_of right) then Inr ()
        else Inl TypeMismatchException))"


fun keyz_of :: "vtype option \<Rightarrow> key list" where
  "keyz_of (Some (StructType ms n)) = map (\<lambda>m. KStr (fst m)) ms"
| "keyz_of (Some (TupleType ms)) = map (\<lambda>i. KInt (int i)) [0..<length ms]"
| "keyz_of t = []"

fun member_type :: "vtype option \<Rightarrow> key \<Rightarrow> error + vtype" where
  "member_type (Some (StructType ms n)) (KStr s) =
     (case map_of ms s of None \<Rightarrow> Inl KeyError | Some t \<Rightarrow> Inr t)"
| "member_type (Some (TupleType ms)) (KInt i) = py_index ms i"
| "member_type t k = Inl KeyError"

fun tuple_members :: "vtype option \<Rightarrow> vtype list" where
  "tuple_members (Some (TupleType ms)) = ms"
| "tuple_members t = []"

text \<open>
  The sources of a tuple assignment, read from the packed layout at \<^verbatim>\<open>_R\<close>: the running
  counter advances by 32 for a byte array and by the member's size otherwise;
  \<^verbatim>\<open>right_arg.typ\<close> exists for base types only.
\<close>

fun unpack_offsets :: "externals \<Rightarrow> vtype list \<Rightarrow> int \<Rightarrow> (error + LLLnode) list" where
  "unpack_offsets ext [] counter = []"
| "unpack_offsets ext (t # ts) counter =
     (if is_ByteArrayLike (Some t) then
        Inr (LLLnode (AStr ''add'')
               [sym ''_R'', op ''mload'' [op ''add'' [sym ''_R'', lit counter]]]
               (Some t) (Some ''memory''))
        # unpack_offsets ext ts (counter + 32)
      else
        (if is_BaseType (Some t) then
           Inr (LLLnode (AStr ''mload'') [op ''add'' [sym ''_R'', lit counter]]
                  (Some (BaseType (typ_name (Some t)) None False False)) None)
         else Inl AttributeError)
        # unpack_offsets ext ts (counter + get_size_of_type ext t * 32))"

definition with_L :: "LLLnode \<Rightarrow> LLLnode list \<Rightarrow> LLLnode option" where
  "with_L left subs = Some (op ''with'' [sym ''_L'', left, op ''seq'' subs])"

definition with_L_R :: "LLLnode \<Rightarrow> LLLnode \<Rightarrow> LLLnode list \<Rightarrow> LLLnode option" where
  "with_L_R left right subs =
     Some (op ''with'' [sym ''_L'', left, op ''with'' [sym ''_R'', right, op ''seq'' subs]])"

fun is_composite :: "vtype option \<Rightarrow> bool" where
  "is_composite (Some (ListType t n)) = True"
| "is_composite (Some (StructType ms n)) = True"
| "is_composite (Some (TupleType ms)) = True"
| "is_composite t = False"

text \<open>
  The recursion of \<^verbatim>\<open>make_setter\<close> ends: a call either descends into a member of the
  destination's type, or (tuple assignment) hands over a source that is neither null nor
  composite, for which no branch recurses.
\<close>

definition type_size :: "vtype option \<Rightarrow> nat" where
  "type_size t = (case t of None \<Rightarrow> 0 | Some t' \<Rightarrow> size t')"

definition setter_measure :: "LLLnode \<Rightarrow> LLLnode \<Rightarrow> nat" where
  "setter_measure left right =
     (if value_of right \<noteq> ANone \<and> \<not> is_composite (typ_of right) then 0
      else Suc (type_size (typ_of left)))"

lemma size_tuple_member: "t \<in> set ms \<Longrightarrow> size t < size (TupleType ms)"
  by (induction ms) auto

lemma size_struct_member: "(s, t) \<in> set ms \<Longrightarrow> size t < size (StructType ms n)"
  by (induction ms) auto

lemma py_index_member: "py_index xs i = Inr x \<Longrightarrow> x \<in> set xs"
  by (auto simp: py_index_def split: if_split_asm)

lemma member_offset_type_size:
  assumes "member_offset ext parent t st i m = Inr (Some n)"
    and "\<And>u. st = Some u \<Longrightarrow> size u < k"
    and "\<And>u. m = Inr u \<Longrightarrow> size u < k"
  shows "type_size (typ_of n) < k"
  using assms
  by (auto simp: member_offset_def bindE_def type_size_def
      split: if_split_asm option.split_asm sum.split_asm)

lemma list_offset_type: "list_offset ext parent st sub = Inr (Some n) \<Longrightarrow> typ_of n = Some st"
  by (auto simp: list_offset_def split: if_split_asm)

lemma add_variable_offset_type_size:
  assumes "add_variable_offset ext parent k b = Inr (Some n)"
    and "is_composite (typ_of parent)"
  shows "type_size (typ_of n) < type_size (typ_of parent)"
proof (cases "typ_of parent")
  case None
  then show ?thesis using assms by simp
next
  case (Some t)
  show ?thesis
  proof (cases t)
    case (ListType st c)
    then obtain sub where "list_offset ext parent st sub = Inr (Some n)"
      using assms(1) Some
      by (auto simp: add_variable_offset_def split: key.split_asm dest: bindE_InrD)
    then show ?thesis
      using Some ListType by (simp add: list_offset_type type_size_def)
  next
    case (StructType ms name)
    then obtain s u where su: "map_of ms s = Some u"
      and mo: "member_offset ext parent (StructType ms name) (Some u)
                 (int (index_of s (map fst ms))) (Inr u) = Inr (Some n)"
      using assms(1) Some
      by (auto simp: add_variable_offset_def split: key.split_asm option.split_asm)
    have "size u < size (StructType ms name)"
      by (rule size_struct_member [OF map_of_SomeD [OF su]])
    then show ?thesis
      using member_offset_type_size [OF mo, of "size (StructType ms name)"] Some StructType
      by (simp add: type_size_def)
  next
    case (TupleType ms)
    then obtain i where
      mo: "member_offset ext parent (TupleType ms) None i (py_index ms i) = Inr (Some n)"
      using assms(1) Some
      by (auto simp: add_variable_offset_def split: key.split_asm)
    have "size u < size (TupleType ms)" if "py_index ms i = Inr u" for u
      by (rule size_tuple_member [OF py_index_member [OF that]])
    then show ?thesis
      using member_offset_type_size [OF mo, of "size (TupleType ms)"] Some TupleType
      by (simp add: type_size_def)
  qed (use assms Some in simp_all)
qed

lemma setter_measure_le: "setter_measure l r \<le> Suc (type_size (typ_of l))"
  by (simp add: setter_measure_def)

lemma setter_measure_full:
  "value_of r = ANone \<or> is_composite (typ_of r) \<Longrightarrow>
   setter_measure l r = Suc (type_size (typ_of l))"
  by (auto simp: setter_measure_def)

lemma typ_of_left_token [simp]: "typ_of (left_token left) = typ_of left"
  by (simp add: left_token_def)

lemma is_ListType_composite: "is_ListType t \<Longrightarrow> is_composite t"
  by (cases t rule: is_ListType.cases) simp_all

lemma struct_tuple_composite:
  "is_StructType t \<or> is_TupleType t \<Longrightarrow> is_composite t"
  by (cases t rule: is_composite.cases) simp_all

lemma struct_tuple_checks_composite:
  "struct_tuple_checks left right = Inr u \<Longrightarrow>
   value_of right = ANone \<or> is_composite (typ_of right)"
  by (auto simp: struct_tuple_checks_def struct_tuple_composite split: if_split_asm)

lemma unpack_offsets_flat:
  "Inr r \<in> set (unpack_offsets ext ts c) \<Longrightarrow>
   value_of r \<noteq> ANone \<and> \<not> is_composite (typ_of r)"
proof (induction ts arbitrary: c)
  case Nil
  then show ?case by simp
next
  case (Cons t ts)
  then show ?case
    by (cases t) (auto split: if_split_asm)
qed

lemma setter_step:
  assumes "add_variable_offset ext (left_token left) k b = Inr (Some l)"
    and "is_composite (typ_of left)"
    and "value_of right = ANone \<or> is_composite (typ_of right)"
  shows "setter_measure l r < setter_measure left right"
  using add_variable_offset_type_size [OF assms(1)] assms(2,3)
    setter_measure_le [of l r] setter_measure_full [of right left]
  by simp

text \<open>\<^verbatim>\<open>make_setter(left, right, location, pos, in_function_call)\<close>.\<close>

function make_setter ::
  "externals \<Rightarrow> LLLnode \<Rightarrow> LLLnode \<Rightarrow> string option \<Rightarrow> bool \<Rightarrow> error + LLLnode option" where
  "make_setter ext left right location in_function_call =
    (if is_BaseType (typ_of left) then
       make_setter_base ext left right location in_function_call
     else if is_ByteArrayLike (typ_of left) then
       bindE (make_byte_array_copier ext left right) (\<lambda>n. Inr (Some n))
     else if is_MappingType (typ_of left) then Inl TypeMismatchException
     else if is_ListType (typ_of left) then
       (if value_of left = AStr ''multi'' then Inl PyException
        else if \<not> is_ListType (typ_of right) then Inl TypeMismatchException
        else if count_of (typ_of right) \<noteq> count_of (typ_of left) then Inl TypeMismatchException
        else if value_of right = AStr ''multi'' then
          bindE
            (mapE (\<lambda>i.
               bindE (add_variable_offset ext (left_token left) (index_key i) False)
                 (\<lambda>l. case l of
                    None \<Rightarrow> Inl AttributeError
                  | Some l' \<Rightarrow>
                      bindE (py_index (args_of right) i) (\<lambda>r.
                      bindE (make_setter ext l' r location False)
                        (\<lambda>res. Inr (node_of_result res)))))
               (py_range (count_of (typ_of left))))
            (\<lambda>subs. Inr (with_L (hashed_left left) subs))
        else if value_of right = ANone then
          (if location_of (hashed_left left) = Some ''memory'' then
             Inr (Some (mzero (hashed_left left) (lit (32 * size_words ext (typ_of left)))))
           else
             bindE
               (mapE (\<lambda>i.
                  bindE (add_variable_offset ext (left_token left) (index_key i) False)
                    (\<lambda>l. case l of
                       None \<Rightarrow> Inl AttributeError
                     | Some l' \<Rightarrow>
                         bindE (make_setter ext l'
                                  (LLLnode ANone [] (subtype_of (typ_of left)) None)
                                  location False)
                           (\<lambda>res. Inr (node_of_result res))))
                  (py_range (count_of (typ_of left))))
               (\<lambda>subs. Inr (with_L (hashed_left left) subs)))
        else
          bindE
            (mapE (\<lambda>i.
               bindE (add_variable_offset ext (left_token left) (index_key i) False)
                 (\<lambda>l. case l of
                    None \<Rightarrow> Inl AttributeError
                  | Some l' \<Rightarrow>
                      bindE (add_variable_offset ext (right_token right) (index_key i) False)
                        (\<lambda>r. case r of
                           None \<Rightarrow> Inl AttributeError
                         | Some r' \<Rightarrow>
                             bindE (make_setter ext l' r' location False)
                               (\<lambda>res. Inr (node_of_result res)))))
               (py_range (count_of (typ_of left))))
            (\<lambda>subs. Inr (with_L_R (hashed_left left) right subs)))
     else if is_StructType (typ_of left) \<or> is_TupleType (typ_of left) then
       bindE (struct_tuple_checks left right) (\<lambda>_.
         (let keyz = keyz_of (typ_of left);
              locations = (if value_of left = AStr ''multi''
                           then map location_of (args_of left)
                           else map (\<lambda>_. location) keyz)
          in
          if value_of right = AStr ''multi'' then
            (if length (args_of right) \<noteq> length keyz then Inl TypeMismatchException
             else
               bindE
                 (mapE (\<lambda>(i, k, loc).
                    bindE (add_variable_offset ext (left_token left) k True)
                      (\<lambda>l. case l of
                         None \<Rightarrow> Inl AttributeError
                       | Some l' \<Rightarrow>
                           bindE (py_index (args_of right) (int i)) (\<lambda>r.
                           bindE (make_setter ext l' r loc False)
                             (\<lambda>res. Inr (node_of_result res)))))
                    (zip [0..<length keyz] (zip keyz locations)))
                 (\<lambda>subs. Inr (with_L (hashed_left left) subs)))
          else if value_of right = ANone then
            (if location_of (hashed_left left) = Some ''memory'' then
               Inr (Some (mzero (hashed_left left) (lit (32 * size_words ext (typ_of left)))))
             else
               bindE
                 (mapE (\<lambda>(k, loc).
                    bindE (add_variable_offset ext (left_token left) k True)
                      (\<lambda>l. case l of
                         None \<Rightarrow> Inl AttributeError
                       | Some l' \<Rightarrow>
                           bindE (member_type (typ_of left) k) (\<lambda>t.
                           bindE (make_setter ext l' (LLLnode ANone [] (Some t) None) loc False)
                             (\<lambda>res. Inr (node_of_result res)))))
                    (zip keyz locations))
                 (\<lambda>subs. Inr (with_L (hashed_left left) subs)))
          else if is_TupleType (typ_of left) \<and> is_TupleType (typ_of right) then
            (if list_ex (\<lambda>a. location_of a = Some ''calldata'') (args_of left)
             then Inl ConstancyViolationException
             else
               bindE
                 (mapE (\<lambda>(left_arg, offset, loc).
                    bindE offset (\<lambda>r.
                    bindE (make_setter ext left_arg r loc False)
                      (\<lambda>res. Inr (node_of_result res))))
                    (zip (args_of left)
                       (zip (unpack_offsets ext (tuple_members (typ_of right)) 0) locations)))
                 (\<lambda>subs. Inr (Some (op ''with'' [sym ''_R'', right, op ''seq'' subs]))))
          else
            bindE
              (mapE (\<lambda>(k, loc).
                 bindE (add_variable_offset ext (left_token left) k True)
                   (\<lambda>l. case l of
                      None \<Rightarrow> Inl AttributeError
                    | Some l' \<Rightarrow>
                        bindE (add_variable_offset ext (right_token right) k True)
                          (\<lambda>r. case r of
                             None \<Rightarrow> Inl AttributeError
                           | Some r' \<Rightarrow>
                               bindE (make_setter ext l' r' loc False)
                                 (\<lambda>res. Inr (node_of_result res)))))
                 (zip keyz locations))
              (\<lambda>subs. Inr (with_L_R (hashed_left left) right subs))))
     else Inl PyException)"
  by pat_completeness auto
termination
proof (relation "measure (\<lambda>(ext, left, right, location, ifc). setter_measure left right)",
    goal_cases)
  case 1
  then show ?case by simp
next
  case (2 ext left right location ifc x xa x2 xaa)
  then show ?case
    by (simp add: setter_step is_ListType_composite)
next
  case (3 ext left right location ifc x xa x2)
  then show ?case
    by (simp add: setter_step is_ListType_composite)
next
  case (4 ext left right location ifc x xa x2 xaa x2a)
  then show ?case
    by (simp add: setter_step is_ListType_composite)
next
  case (5 ext left right location ifc x xa xb xc xd y xe ya xf x2 xg)
  then show ?case
    using struct_tuple_checks_composite [of left right]
    by (simp add: setter_step struct_tuple_composite)
next
  case (6 ext left right location ifc x xa xb xc xd y xe x2 xf)
  then show ?case
    by (simp add: setter_step struct_tuple_composite)
next
  case (7 ext left right location ifc x xa xb xc xd y xe ya xf)
  then have "Inr xf \<in> set (unpack_offsets ext (tuple_members (typ_of right)) 0)"
    by (metis set_zip_leftD set_zip_rightD)
  then have "setter_measure xd xf = 0"
    using unpack_offsets_flat by (simp add: setter_measure_def)
  moreover have "is_composite (typ_of right)"
    using 7 by (simp add: struct_tuple_composite)
  ultimately show ?case
    by (simp add: setter_measure_full)
next
  case (8 ext left right location ifc x xa xb xc xd y xe x2 xf x2a)
  then show ?case
    using struct_tuple_checks_composite [of left right]
    by (simp add: setter_step struct_tuple_composite)
qed

declare make_setter.simps [simp del]

subsection \<open>Base-type and aggregate destinations of the setter\<close>

lemma make_setter_BaseType:
  "is_BaseType (typ_of left) \<Longrightarrow>
   make_setter ext left right location ifc = make_setter_base ext left right location ifc"
  by (subst make_setter.simps) simp

lemma make_setter_base_cases:
  "make_setter_base ext left right location ifc =
     (case make_setter_base ext left right (Some ''memory'') ifc of
        Inl e \<Rightarrow> Inl e
      | Inr y \<Rightarrow>
          (case y of
             None \<Rightarrow> Inr None
           | Some n \<Rightarrow>
               if location = Some ''storage''
               then Inr (Some (LLLnode (AStr ''sstore'') (args_of n) None None))
               else if location = Some ''memory'' then Inr (Some n)
               else Inr None))"
  by (simp add: make_setter_base_def bindE_def Let_def split: sum.split)

lemma make_setter_base_memory:
  "make_setter_base ext left right (Some ''memory'') ifc = Inr y \<Longrightarrow>
   \<exists>r. y = Some (op ''mstore'' [left, r])"
  by (auto simp: make_setter_base_def bindE_def Let_def split: sum.split_asm)

text \<open>
  Claim C9. For a destination of base type, \<^verbatim>\<open>make_setter\<close> returns a node only for the
  locations \<^verbatim>\<open>storage\<close> (an \<^verbatim>\<open>sstore\<close>) and \<^verbatim>\<open>memory\<close> (an \<^verbatim>\<open>mstore\<close>). For any
  other location it raises exactly the errors it raises for \<^verbatim>\<open>memory\<close> (those of the
  conversion and of the range check), and where the call for \<^verbatim>\<open>memory\<close> returns, it
  returns None: the location itself never raises.
\<close>

theorem make_setter_base_location:
  assumes base: "is_BaseType (typ_of left)"
  shows "(location \<noteq> Some ''storage'' \<and> location \<noteq> Some ''memory'' \<longrightarrow>
            (\<forall>e. (make_setter ext left right location ifc = Inl e)
                = (make_setter ext left right (Some ''memory'') ifc = Inl e))
          \<and> (\<forall>y. make_setter ext left right (Some ''memory'') ifc = Inr y \<longrightarrow>
                 make_setter ext left right location ifc = Inr None))
       \<and> (\<forall>n. make_setter ext left right location ifc = Inr (Some n) \<longrightarrow>
             (location = Some ''storage'' \<and> value_of n = AStr ''sstore'')
             \<or> (location = Some ''memory'' \<and> value_of n = AStr ''mstore''))"
proof -
  note ms = make_setter_BaseType [OF base]
  show ?thesis
  proof (cases "make_setter_base ext left right (Some ''memory'') ifc")
    case (Inl e)
    then show ?thesis
      using make_setter_base_cases [of ext left right location ifc]
      by (simp add: ms)
  next
    case (Inr y)
    then obtain r where "y = Some (op ''mstore'' [left, r])"
      using make_setter_base_memory by blast
    then show ?thesis
      using Inr make_setter_base_cases [of ext left right location ifc]
      by (auto simp: ms)
  qed
qed


text \<open>The literal 5 into an int128: stored for \<^verbatim>\<open>memory\<close>, dropped for \<^verbatim>\<open>calldata\<close>.\<close>

theorem make_setter_base_location_witness:
  "make_setter sample_externals
     (LLLnode (AInt 320) [] (Some (BaseType ''int128'' None False False)) (Some ''memory''))
     (LLLnode (AInt 5) [] (Some (BaseType ''int128'' None False True)) None)
     (Some ''memory'') False
   = Inr (Some (op ''mstore''
       [LLLnode (AInt 320) [] (Some (BaseType ''int128'' None False False)) (Some ''memory''),
        LLLnode (AInt 5) [] (Some (BaseType ''int128'' None False False)) None]))
   \<and> make_setter sample_externals
     (LLLnode (AInt 320) [] (Some (BaseType ''int128'' None False False)) (Some ''memory''))
     (LLLnode (AInt 5) [] (Some (BaseType ''int128'' None False True)) None)
     (Some ''calldata'') False = Inr None"
proof -
  have ib: "in_bounds ''int128'' (AInt 5) = Inr True"
    by (simp add: in_bounds_def)
  have m: "make_setter sample_externals
     (LLLnode (AInt 320) [] (Some (BaseType ''int128'' None False False)) (Some ''memory''))
     (LLLnode (AInt 5) [] (Some (BaseType ''int128'' None False True)) None)
     (Some ''memory'') False
   = Inr (Some (op ''mstore''
       [LLLnode (AInt 320) [] (Some (BaseType ''int128'' None False False)) (Some ''memory''),
        LLLnode (AInt 5) [] (Some (BaseType ''int128'' None False False)) None]))"
    by (simp add: make_setter_BaseType make_setter_base_def base_type_conversion_def
        unwrap_location_def ib is_base_type_def units_compatible_def sample_externals_def
        Let_def)
  show ?thesis
    using make_setter_base_location
      [of "LLLnode (AInt 320) [] (Some (BaseType ''int128'' None False False)) (Some ''memory'')"
          "Some ''calldata''" sample_externals
          "LLLnode (AInt 5) [] (Some (BaseType ''int128'' None False True)) None" False] m
    by simp
qed

lemma make_setter_struct_tuple_checks:
  assumes "is_StructType (typ_of left) \<or> is_TupleType (typ_of left)"
    and "struct_tuple_checks left right = Inl e"
  shows "make_setter ext left right location ifc = Inl e"
proof -
  have "\<not> is_BaseType (typ_of left)" "\<not> is_ByteArrayLike (typ_of left)"
    "\<not> is_MappingType (typ_of left)" "\<not> is_ListType (typ_of left)"
    using assms(1) by (cases "typ_of left" rule: is_composite.cases; simp)+
  then show ?thesis
    using assms by (subst make_setter.simps) simp
qed

text \<open>
  Claim C8, amended. For a struct destination that is not an element literal and a source
  that is not null: a source that is not a struct raises TypeMismatchException; a struct
  source with no null child raises TypeMismatchException when its member names differ
  from the destination's or its struct name does. For a tuple destination, a tuple source
  that is not null and has a different number of members raises TypeMismatchException.
\<close>

theorem make_setter_struct_tuple_mismatch:
  "(is_StructType (typ_of left) \<and> value_of left \<noteq> AStr ''multi'' \<and> value_of right \<noteq> ANone
      \<and> \<not> is_StructType (typ_of right) \<longrightarrow>
        make_setter ext left right location ifc = Inl TypeMismatchException)
   \<and> (is_StructType (typ_of left) \<and> value_of left \<noteq> AStr ''multi'' \<and> value_of right \<noteq> ANone
      \<and> is_StructType (typ_of right)
      \<and> \<not> list_ex (\<lambda>k. value_of k = ANone) (args_of right)
      \<and> (set (member_names (typ_of left)) \<noteq> set (member_names (typ_of right))
           \<or> struct_name (typ_of left) \<noteq> struct_name (typ_of right)) \<longrightarrow>
        make_setter ext left right location ifc = Inl TypeMismatchException)
   \<and> (is_TupleType (typ_of left) \<and> value_of right \<noteq> ANone \<and> is_TupleType (typ_of right)
      \<and> member_count (typ_of left) \<noteq> member_count (typ_of right) \<longrightarrow>
        make_setter ext left right location ifc = Inl TypeMismatchException)"
proof (intro conjI impI)
  assume a: "is_StructType (typ_of left) \<and> value_of left \<noteq> AStr ''multi''
      \<and> value_of right \<noteq> ANone \<and> \<not> is_StructType (typ_of right)"
  then have "struct_tuple_checks left right = Inl TypeMismatchException"
    by (simp add: struct_tuple_checks_def)
  then show "make_setter ext left right location ifc = Inl TypeMismatchException"
    using a by (simp add: make_setter_struct_tuple_checks)
next
  assume a: "is_StructType (typ_of left) \<and> value_of left \<noteq> AStr ''multi''
      \<and> value_of right \<noteq> ANone \<and> is_StructType (typ_of right)
      \<and> \<not> list_ex (\<lambda>k. value_of k = ANone) (args_of right)
      \<and> (set (member_names (typ_of left)) \<noteq> set (member_names (typ_of right))
           \<or> struct_name (typ_of left) \<noteq> struct_name (typ_of right))"
  then have "struct_tuple_checks left right = Inl TypeMismatchException"
    by (auto simp: struct_tuple_checks_def list_ex_iff)
  then show "make_setter ext left right location ifc = Inl TypeMismatchException"
    using a by (simp add: make_setter_struct_tuple_checks)
next
  assume a: "is_TupleType (typ_of left) \<and> value_of right \<noteq> ANone
      \<and> is_TupleType (typ_of right)
      \<and> member_count (typ_of left) \<noteq> member_count (typ_of right)"
  then have "\<not> is_StructType (typ_of left)"
    by (cases "typ_of left" rule: is_composite.cases) simp_all
  then have "struct_tuple_checks left right = Inl TypeMismatchException"
    using a by (simp add: struct_tuple_checks_def)
  then show "make_setter ext left right location ifc = Inl TypeMismatchException"
    using a by (simp add: make_setter_struct_tuple_checks)
qed

text \<open>
  Claim C8 as stated fails at two guards that come before the type checks. A struct
  destination that is an element literal (value \<^verbatim>\<open>multi\<close>) raises a plain Exception,
  also for a tuple source. A struct source of another name with a null child raises
  CompilerPanic.
\<close>

theorem make_setter_struct_literal_target:
  "make_setter sample_externals
     (LLLnode (AStr ''multi'')
        [LLLnode (AInt 320) [] (Some (BaseType ''int128'' None False False)) (Some ''memory''),
         LLLnode (AInt 352) [] (Some (BaseType ''int128'' None False False)) (Some ''memory'')]
        (Some (StructType [(''a'', BaseType ''int128'' None False False),
                           (''b'', BaseType ''int128'' None False False)] ''Pair''))
        None)
     (LLLnode (AInt 640) []
        (Some (TupleType [BaseType ''int128'' None False False,
                          BaseType ''int128'' None False False]))
        (Some ''memory''))
     (Some ''memory'') False = Inl PyException
   \<and> make_setter sample_externals
     (LLLnode (AInt 320) []
        (Some (StructType [(''a'', BaseType ''int128'' None False False),
                           (''b'', BaseType ''int128'' None False False)] ''Pair''))
        (Some ''memory''))
     (LLLnode (AStr ''multi'')
        [LLLnode (AInt 1) [] (Some (BaseType ''int128'' None False True)) None,
         LLLnode ANone [] (Some (BaseType ''int128'' None False False)) None]
        (Some (StructType [(''a'', BaseType ''int128'' None False False),
                           (''b'', BaseType ''int128'' None False False)] ''Other''))
        None)
     (Some ''memory'') False = Inl CompilerPanic"
  by (simp add: make_setter_struct_tuple_checks struct_tuple_checks_def)


text \<open>
  A tuple of two int128 into a struct of two int128, a struct of another name, and a
  tuple of one member into a tuple of two.
\<close>

theorem make_setter_struct_tuple_mismatch_witness:
  "make_setter sample_externals
     (LLLnode (AInt 320) []
        (Some (StructType [(''a'', BaseType ''int128'' None False False),
                           (''b'', BaseType ''int128'' None False False)] ''Pair''))
        (Some ''memory''))
     (LLLnode (AInt 640) []
        (Some (TupleType [BaseType ''int128'' None False False,
                          BaseType ''int128'' None False False]))
        (Some ''memory''))
     (Some ''memory'') False = Inl TypeMismatchException
   \<and> make_setter sample_externals
     (LLLnode (AInt 320) []
        (Some (StructType [(''a'', BaseType ''int128'' None False False),
                           (''b'', BaseType ''int128'' None False False)] ''Pair''))
        (Some ''memory''))
     (LLLnode (AInt 640) []
        (Some (StructType [(''a'', BaseType ''int128'' None False False),
                           (''b'', BaseType ''int128'' None False False)] ''Other''))
        (Some ''memory''))
     (Some ''memory'') False = Inl TypeMismatchException
   \<and> make_setter sample_externals
     (LLLnode (AInt 320) []
        (Some (TupleType [BaseType ''int128'' None False False,
                          BaseType ''int128'' None False False]))
        (Some ''memory''))
     (LLLnode (AInt 640) []
        (Some (TupleType [BaseType ''int128'' None False False]))
        (Some ''memory''))
     (Some ''memory'') False = Inl TypeMismatchException"
  using make_setter_struct_tuple_mismatch
    [where left = "LLLnode (AInt 320) []
        (Some (StructType [(''a'', BaseType ''int128'' None False False),
                           (''b'', BaseType ''int128'' None False False)] ''Pair''))
        (Some ''memory'')"
      and right = "LLLnode (AInt 640) []
        (Some (TupleType [BaseType ''int128'' None False False,
                          BaseType ''int128'' None False False]))
        (Some ''memory'')"
      and ext = sample_externals and location = "Some ''memory''" and ifc = False]
    make_setter_struct_tuple_mismatch
    [where left = "LLLnode (AInt 320) []
        (Some (StructType [(''a'', BaseType ''int128'' None False False),
                           (''b'', BaseType ''int128'' None False False)] ''Pair''))
        (Some ''memory'')"
      and right = "LLLnode (AInt 640) []
        (Some (StructType [(''a'', BaseType ''int128'' None False False),
                           (''b'', BaseType ''int128'' None False False)] ''Other''))
        (Some ''memory'')"
      and ext = sample_externals and location = "Some ''memory''" and ifc = False]
    make_setter_struct_tuple_mismatch
    [where left = "LLLnode (AInt 320) []
        (Some (TupleType [BaseType ''int128'' None False False,
                          BaseType ''int128'' None False False]))
        (Some ''memory'')"
      and right = "LLLnode (AInt 640) []
        (Some (TupleType [BaseType ''int128'' None False False]))
        (Some ''memory'')"
      and ext = sample_externals and location = "Some ''memory''" and ifc = False]
  by simp

subsection \<open>Clearing a byte array in memory\<close>

text \<open>Reading memory after a write, and the word read from 32 zero bytes.\<close>

lemma read_past_end: "map (\<lambda>k. read_byte cd (length cd + k)) [0..<n] = replicate n 0"
  by (simp add: read_byte_def map_replicate_const)

lemma padded_read: "a < d \<Longrightarrow> (mem @ replicate (d - length mem) 0) ! a = read_byte mem a"
  by (cases "a < length mem") (simp_all add: read_byte_def nth_append)

lemma read_byte_write_bytes:
  "read_byte (write_bytes mem d bs) a =
     (if d \<le> a \<and> a < d + length bs then bs ! (a - d) else read_byte mem a)"
proof -
  define front where "front = take d (mem @ replicate (d - length mem) 0)"
  define rest where "rest = drop (d + length bs) mem"
  have len: "length front = d"
    by (simp add: front_def)
  have wb: "write_bytes mem d bs = front @ bs @ rest"
    by (simp add: write_bytes_def front_def rest_def)
  consider "a < d" | "d \<le> a" "a < d + length bs" | "d + length bs \<le> a"
    by linarith
  then show ?thesis
  proof cases
    case 1
    then have "read_byte (write_bytes mem d bs) a = front ! a"
      using len by (simp add: read_byte_def wb nth_append)
    also have "\<dots> = (mem @ replicate (d - length mem) 0) ! a"
      unfolding front_def using 1 by (rule nth_take)
    also have "\<dots> = read_byte mem a"
      using 1 by (rule padded_read)
    finally show ?thesis using 1 by simp
  next
    case 2
    then have "a - d < length bs" by linarith
    then show ?thesis
      using 2 len by (simp add: read_byte_def wb nth_append)
  next
    case 3
    have "read_byte (front @ bs @ rest) a = read_byte rest (a - (d + length bs))"
      using 3 len by (auto simp: read_byte_def nth_append)
    also have "\<dots> = read_byte mem a"
      using 3 by (auto simp: read_byte_def rest_def)
    finally show ?thesis using 3 by (simp add: wb)
  qed
qed

lemma foldl_zero_bytes: "foldl (\<lambda>acc b. acc * 256 + b) 0 (replicate n (0::nat)) = 0"
  by (induction n) simp_all

lemma mload_word_zero:
  assumes "\<And>a. d \<le> a \<Longrightarrow> a < d + 32 \<Longrightarrow> read_byte mem a = 0"
  shows "mload_word mem d = 0"
proof -
  have "map (read_byte mem) [d..<d + 32] = map (\<lambda>a. 0) [d..<d + 32]"
    using assms by (intro map_cong) auto
  then show ?thesis
    by (simp add: mload_word_def map_replicate_const foldl_zero_bytes)
qed

lemma zero_fill_effect:
  "mload_word (write_bytes mem d (replicate 32 0)) d = 0
   \<and> (\<forall>a. a < d \<or> d + 32 \<le> a \<longrightarrow>
          read_byte (write_bytes mem d (replicate 32 0)) a = read_byte mem a)"
proof (intro conjI allI impI)
  show "mload_word (write_bytes mem d (replicate 32 0)) d = 0"
    by (rule mload_word_zero) (simp add: read_byte_write_bytes)
  show "read_byte (write_bytes mem d (replicate 32 0)) a = read_byte mem a"
    if "a < d \<or> d + 32 \<le> a" for a
    using that by (auto simp: read_byte_write_bytes)
qed

text \<open>
  A byte-array destination hands the assignment to the copier; for a null source without a
  location and a destination in memory the copier emits the zero-fill of \<^verbatim>\<open>mzero\<close> with
  the length 32 (\<^verbatim>\<open>max_length = 32 if source.value is None\<close>).
\<close>

lemma make_setter_ByteArrayLike:
  "is_ByteArrayLike (typ_of left) \<Longrightarrow>
   make_setter ext left right location ifc =
     bindE (make_byte_array_copier ext left right) (\<lambda>n. Inr (Some n))"
  by (cases "typ_of left" rule: is_ByteArrayLike.cases; subst make_setter.simps; simp)

lemma make_byte_array_copier_null_memory:
  assumes "maxlen (typ_of left) = Inr n" "location_of left = Some ''memory''"
    and "value_of right = ANone" "maxlen (typ_of right) = Inr n"
    and "location_of right \<noteq> Some ''memory''"
  shows "make_byte_array_copier ext left right =
     Inr (op ''with'' [sym ''_pos'', lit 0,
            op ''calldatacopy'' [left, sym ''calldatasize'', lit 32]])"
  using assms maxlen_ByteArrayLike [OF assms(4)]
  by (simp add: make_byte_array_copier_def make_byte_slice_copier_def mzero_def Let_def)

text \<open>The run of that code: 32 bytes copied from past the end of the call data.\<close>

lemma unat_calldatasize:
  "length cd < 2 ^ 256 \<Longrightarrow> unat (word_of_nat (length cd) :: 256 word) = length cd"
  by (simp add: unat_of_nat)

lemma run_zero_fill:
  assumes "run h ((''_pos'', 0) # env) left m = Done d m" "length (calldata m) < 2 ^ 256"
  shows "run h env (op ''with'' [sym ''_pos'', lit 0,
            op ''calldatacopy'' [left, sym ''calldatasize'', lit 32]]) m =
         Done 0 (m\<lparr>memory := write_bytes (memory m) (unat d) (replicate 32 0)\<rparr>)"
  using assms by (simp add: calldatacopy_def read_past_end unat_calldatasize)


text \<open>
  Claim C1, amended. For a byte-array or string destination in memory and a null source of
  the same maximum length (a null source has no location), \<^verbatim>\<open>make_setter\<close> returns
  \<^verbatim>\<open>(with _pos 0 (calldatacopy destination calldatasize 32))\<close>: a zero-fill of 32
  bytes, whatever the maximum length. On any machine state on which the destination
  expression evaluates to an address \<open>d\<close> without changing the state, the emitted code
  runs to completion, reads no source (it copies from past the end of the call data, which
  it leaves as it was), and changes memory only in the 32 bytes of the length word at
  \<open>d\<close>: afterwards the stored length is 0 and every byte outside \<open>[d, d + 32)\<close>, the
  payload included, is what it was.
\<close>

theorem make_setter_null_bytes_memory:
  assumes "maxlen (typ_of left) = Inr n" "location_of left = Some ''memory''"
    and "value_of right = ANone" "maxlen (typ_of right) = Inr n"
    and "location_of right \<noteq> Some ''memory''"
  shows "make_setter ext left right location ifc =
           Inr (Some (op ''with'' [sym ''_pos'', lit 0,
                        op ''calldatacopy'' [left, sym ''calldatasize'', lit 32]]))
    \<and> (\<forall>h env m d.
          run h ((''_pos'', 0) # env) left m = Done d m \<and> length (calldata m) < 2 ^ 256 \<longrightarrow>
          (\<exists>m'. run h env (op ''with'' [sym ''_pos'', lit 0,
                        op ''calldatacopy'' [left, sym ''calldatasize'', lit 32]]) m
                  = Done 0 m'
             \<and> calldata m' = calldata m
             \<and> memory m' = write_bytes (memory m) (unat d) (replicate 32 0)
             \<and> mload_word (memory m') (unat d) = 0
             \<and> (\<forall>a. a < unat d \<or> unat d + 32 \<le> a \<longrightarrow>
                    read_byte (memory m') a = read_byte (memory m) a)))"
proof (intro conjI allI impI)
  show "make_setter ext left right location ifc =
           Inr (Some (op ''with'' [sym ''_pos'', lit 0,
                        op ''calldatacopy'' [left, sym ''calldatasize'', lit 32]]))"
    using make_byte_array_copier_null_memory [OF assms] maxlen_ByteArrayLike [OF assms(1)]
    by (simp add: make_setter_ByteArrayLike)
next
  fix h env m d
  assume "run h ((''_pos'', 0) # env) left m = Done d m \<and> length (calldata m) < 2 ^ 256"
  then have r: "run h ((''_pos'', 0) # env) left m = Done d m"
    and l: "length (calldata m) < 2 ^ 256"
    by simp_all
  show "\<exists>m'. run h env (op ''with'' [sym ''_pos'', lit 0,
                        op ''calldatacopy'' [left, sym ''calldatasize'', lit 32]]) m
                  = Done 0 m'
             \<and> calldata m' = calldata m
             \<and> memory m' = write_bytes (memory m) (unat d) (replicate 32 0)
             \<and> mload_word (memory m') (unat d) = 0
             \<and> (\<forall>a. a < unat d \<or> unat d + 32 \<le> a \<longrightarrow>
                    read_byte (memory m') a = read_byte (memory m) a)"
    unfolding run_zero_fill [OF r l] using zero_fill_effect [of "memory m" "unat d"] by simp
qed

text \<open>
  Claim C1, evaluated where it fails. A \<^verbatim>\<open>bytes[32]\<close> destination at memory address 0,
  in a memory of 64 bytes that all hold 1: after the emitted code has run the length word
  (bytes 0 to 31) is zero, and the payload (bytes 32 to 63) still holds 1. The fill covers
  the length word, not the static maximum length.
\<close>

theorem make_setter_null_bytes_payload_untouched:
  "make_setter sample_externals
     (LLLnode (AInt 0) [] (Some (ByteArrayType 32)) (Some ''memory''))
     (LLLnode ANone [] (Some (ByteArrayType 32)) None) (Some ''memory'') False
   = Inr (Some (op ''with'' [sym ''_pos'', lit 0,
            op ''calldatacopy'' [LLLnode (AInt 0) [] (Some (ByteArrayType 32)) (Some ''memory''),
                                 sym ''calldatasize'', lit 32]]))
   \<and> run (\<lambda>x. x) [] (op ''with'' [sym ''_pos'', lit 0,
            op ''calldatacopy'' [LLLnode (AInt 0) [] (Some (ByteArrayType 32)) (Some ''memory''),
                                 sym ''calldatasize'', lit 32]])
        sample_machine
     = Done 0 \<lparr>memory = replicate 32 0 @ replicate 32 1, calldata = [1, 2, 3]\<rparr>
   \<and> read_byte (replicate 32 0 @ replicate 32 1) 32 = 1"
proof -
  have a: "make_setter sample_externals
     (LLLnode (AInt 0) [] (Some (ByteArrayType 32)) (Some ''memory''))
     (LLLnode ANone [] (Some (ByteArrayType 32)) None) (Some ''memory'') False
   = Inr (Some (op ''with'' [sym ''_pos'', lit 0,
            op ''calldatacopy'' [LLLnode (AInt 0) [] (Some (ByteArrayType 32)) (Some ''memory''),
                                 sym ''calldatasize'', lit 32]]))"
    by (simp add: make_setter_ByteArrayLike make_byte_array_copier_null_memory [where n = 32])
  have b: "run (\<lambda>x. x) [] (op ''with'' [sym ''_pos'', lit 0,
            op ''calldatacopy'' [LLLnode (AInt 0) [] (Some (ByteArrayType 32)) (Some ''memory''),
                                 sym ''calldatasize'', lit 32]])
        sample_machine
     = Done 0 \<lparr>memory = replicate 32 0 @ replicate 32 1, calldata = [1, 2, 3]\<rparr>"
    by (subst run_zero_fill [where d = 0]) (simp_all add: write_bytes_def sample_machine_def)
  have c: "read_byte (replicate 32 0 @ replicate 32 1) 32 = 1"
    by (simp add: read_byte_def nth_append)
  show ?thesis using a b c by simp
qed

text \<open>
  A \<^verbatim>\<open>string[100]\<close> destination at address 320 in a memory of 500 bytes that all hold 7:
  the length word becomes 0, the bytes on either side of it keep their value.
\<close>

theorem make_setter_null_bytes_memory_witness:
  "make_setter sample_externals
     (LLLnode (AInt 320) [] (Some (StringType 100)) (Some ''memory''))
     (LLLnode ANone [] (Some (StringType 100)) None) (Some ''memory'') False
   = Inr (Some (op ''with'' [sym ''_pos'', lit 0,
            op ''calldatacopy'' [LLLnode (AInt 320) [] (Some (StringType 100)) (Some ''memory''),
                                 sym ''calldatasize'', lit 32]]))
   \<and> (\<exists>m'. run (\<lambda>x. x) [] (op ''with'' [sym ''_pos'', lit 0,
            op ''calldatacopy'' [LLLnode (AInt 320) [] (Some (StringType 100)) (Some ''memory''),
                                 sym ''calldatasize'', lit 32]])
              \<lparr>memory = replicate 500 7, calldata = [1, 2, 3]\<rparr> = Done 0 m'
         \<and> calldata m' = [1, 2, 3]
         \<and> mload_word (memory m') 320 = 0
         \<and> read_byte (memory m') 319 = 7
         \<and> read_byte (memory m') 352 = 7)"
proof -
  let ?left = "LLLnode (AInt 320) [] (Some (StringType 100)) (Some ''memory'')"
  let ?m = "\<lparr>memory = replicate 500 7, calldata = [1, 2, 3]\<rparr>"
  have r: "run (\<lambda>x. x) [(''_pos'', 0)] ?left ?m = Done 320 ?m \<and> length (calldata ?m) < 2 ^ 256"
    by simp
  have b: "read_byte (replicate 500 7) 319 = 7" "read_byte (replicate 500 7) 352 = 7"
    by (simp_all add: read_byte_def)
  have u: "unat (320 :: 256 word) = 320"
    by simp
  have a: "maxlen (typ_of ?left) = Inr 100" "location_of ?left = Some ''memory''"
    "value_of (LLLnode ANone [] (Some (StringType 100)) None) = ANone"
    "maxlen (typ_of (LLLnode ANone [] (Some (StringType 100)) None)) = Inr 100"
    "location_of (LLLnode ANone [] (Some (StringType 100)) None) \<noteq> Some ''memory''"
    by simp_all
  note t = make_setter_null_bytes_memory
    [OF a, where ext = sample_externals and location = "Some ''memory''" and ifc = False]
  have t1: "make_setter sample_externals ?left
     (LLLnode ANone [] (Some (StringType 100)) None) (Some ''memory'') False
   = Inr (Some (op ''with'' [sym ''_pos'', lit 0,
            op ''calldatacopy'' [?left, sym ''calldatasize'', lit 32]]))"
    using t by (rule conjunct1)
  have "\<exists>m'. run (\<lambda>x. x) [] (op ''with'' [sym ''_pos'', lit 0,
                        op ''calldatacopy'' [?left, sym ''calldatasize'', lit 32]]) ?m
                  = Done 0 m'
             \<and> calldata m' = calldata ?m
             \<and> memory m' = write_bytes (memory ?m) (unat (320 :: 256 word)) (replicate 32 0)
             \<and> mload_word (memory m') (unat (320 :: 256 word)) = 0
             \<and> (\<forall>a. a < unat (320 :: 256 word) \<or> unat (320 :: 256 word) + 32 \<le> a \<longrightarrow>
                    read_byte (memory m') a = read_byte (memory ?m) a)"
    by (rule t [THEN conjunct2, rule_format, OF r])
  then obtain m' where m':
    "run (\<lambda>x. x) [] (op ''with'' [sym ''_pos'', lit 0,
            op ''calldatacopy'' [?left, sym ''calldatasize'', lit 32]]) ?m = Done 0 m'"
    "calldata m' = calldata ?m"
    "mload_word (memory m') (unat (320 :: 256 word)) = 0"
    "\<forall>a. a < unat (320 :: 256 word) \<or> unat (320 :: 256 word) + 32 \<le> a \<longrightarrow>
                    read_byte (memory m') a = read_byte (memory ?m) a"
    by blast
  have c1: "calldata m' = [1, 2, 3]"
    using m'(2) by simp
  have c2: "mload_word (memory m') 320 = 0"
    using m'(3) by simp
  have c3: "read_byte (memory m') 319 = 7"
    using m'(4) [rule_format, of 319] b by simp
  have c4: "read_byte (memory m') 352 = 7"
    using m'(4) [rule_format, of 352] b by simp
  show ?thesis
  proof (intro conjI exI [of _ m'])
    show "make_setter sample_externals ?left
     (LLLnode ANone [] (Some (StringType 100)) None) (Some ''memory'') False
   = Inr (Some (op ''with'' [sym ''_pos'', lit 0,
            op ''calldatacopy'' [?left, sym ''calldatasize'', lit 32]]))"
      by (rule t1)
  qed (rule m'(1) c1 c2 c3 c4)+
qed

end
